theory Spec2Isabelle
  imports Complex_Main
begin

section \<open>Numbers and results\<close>

text \<open>
  JavaScript numbers are IEEE doubles. The amounts and limits of the ledger and the
  confidence scores of the pipeline are modelled as rationals with exact arithmetic. The
  gateway's cost is modelled in binary64: its values are the rationals a double can hold
  and every operation rounds as the machine does (section ``Binary64 arithmetic''). NaN and
  the infinities have no counterpart. Token counts are natural numbers.

  Every operation of the budget manager and of the orchestrator answers with an object
  \<^verbatim>\<open>{success, error?, remaining?}\<close>.
\<close>

datatype result =
    Success
  | SuccessRemaining rat
  | Failure string

section \<open>Budget manager (src/utils/budget-manager.js)\<close>

record BudgetScope =
  scope_id :: string
  limit :: rat
  spent :: rat
  currency :: string

definition CURRENCY_USD :: string where
  "CURRENCY_USD = ''USD''"

text \<open>
  The store is the Map-backed one the manager's tests inject: \<^verbatim>\<open>getBudget\<close> reads the
  Map, \<^verbatim>\<open>upsertBudget\<close> overwrites the entry, \<^verbatim>\<open>updateBudget\<close> stores
  \<^verbatim>\<open>{...current, ...updates}\<close>. The manager passes an update object that carries either
  \<^verbatim>\<open>spent\<close> or \<^verbatim>\<open>limit\<close>, always for a scope it has just read; for a scope that is not
  in the Map (where the JavaScript would store the bare update object) the model leaves the
  Map as it is. The manager's \<^verbatim>\<open>logger.info\<close> lines change no state and are left out.
\<close>

type_synonym budgets = "string \<rightharpoonup> BudgetScope"

record BudgetUpdate =
  upd_limit :: "rat option"
  upd_spent :: "rat option"

definition merge_update :: "BudgetScope \<Rightarrow> BudgetUpdate \<Rightarrow> BudgetScope" where
  "merge_update current updates =
     current\<lparr> limit := (case upd_limit updates of None \<Rightarrow> limit current | Some l \<Rightarrow> l),
              spent := (case upd_spent updates of None \<Rightarrow> spent current | Some s \<Rightarrow> s) \<rparr>"

definition getBudget :: "budgets \<Rightarrow> string \<Rightarrow> BudgetScope option" where
  "getBudget st scopeId = st scopeId"

definition updateBudget :: "string \<Rightarrow> BudgetUpdate \<Rightarrow> budgets \<Rightarrow> budgets" where
  "updateBudget scopeId updates st =
     (case st scopeId of
        None \<Rightarrow> st
      | Some current \<Rightarrow> st(scopeId \<mapsto> merge_update current updates))"

definition upsertBudget :: "string \<Rightarrow> BudgetScope \<Rightarrow> budgets \<Rightarrow> budgets" where
  "upsertBudget scopeId data st = st(scopeId \<mapsto> data)"

definition canSpend :: "string \<Rightarrow> rat \<Rightarrow> budgets \<Rightarrow> result" where
  "canSpend scopeId estimatedCost st =
     (case getBudget st scopeId of
        None \<Rightarrow> Failure ''No budget found''
      | Some budget \<Rightarrow>
          if spent budget + estimatedCost > limit budget
          then Failure ''Budget exceeded''
          else Success)"

definition recordSpend :: "string \<Rightarrow> rat \<Rightarrow> budgets \<Rightarrow> result \<times> budgets" where
  "recordSpend scopeId amount st =
     (case getBudget st scopeId of
        None \<Rightarrow> (Failure ''No budget found'', st)
      | Some budget \<Rightarrow>
          (let newSpent = spent budget + amount;
               st' = updateBudget scopeId \<lparr>upd_limit = None, upd_spent = Some newSpent\<rparr> st
           in (SuccessRemaining (limit budget - newSpent), st')))"

definition setBudget :: "string \<Rightarrow> rat \<Rightarrow> budgets \<Rightarrow> result \<times> budgets" where
  "setBudget scopeId newLimit st =
     (Success,
      upsertBudget scopeId
        \<lparr>scope_id = scopeId, limit = newLimit, spent = 0, currency = CURRENCY_USD\<rparr> st)"

definition allocate :: "string \<Rightarrow> string \<Rightarrow> rat \<Rightarrow> budgets \<Rightarrow> result \<times> budgets" where
  "allocate fromScopeId toScopeId amount st =
     (case getBudget st fromScopeId of
        None \<Rightarrow> (Failure ''Source budget not found'', st)
      | Some parentBudget \<Rightarrow>
          if spent parentBudget + amount > limit parentBudget
          then (Failure ''Insufficient budget in source'', st)
          else
            (let st1 = updateBudget fromScopeId
                         \<lparr>upd_limit = None, upd_spent = Some (spent parentBudget + amount)\<rparr> st
             in case getBudget st1 toScopeId of
                  Some childBudget \<Rightarrow>
                    (Success,
                     updateBudget toScopeId
                       \<lparr>upd_limit = Some (limit childBudget + amount), upd_spent = None\<rparr> st1)
                | None \<Rightarrow>
                    (Success,
                     upsertBudget toScopeId
                       \<lparr>scope_id = toScopeId, limit = amount, spent = 0,
                        currency = CURRENCY_USD\<rparr> st1)))"

subsection \<open>Sequences of ledger calls\<close>

datatype budget_op =
    SetBudget string rat
  | RecordSpend string rat
  | Allocate string string rat

fun apply_op :: "budget_op \<Rightarrow> budgets \<Rightarrow> budgets" where
  "apply_op (SetBudget s l) st = snd (setBudget s l st)"
| "apply_op (RecordSpend s a) st = snd (recordSpend s a st)"
| "apply_op (Allocate f t a) st = snd (allocate f t a st)"

fun run_ops :: "budget_op list \<Rightarrow> budgets \<Rightarrow> budgets" where
  "run_ops [] st = st"
| "run_ops (op # ops) st = run_ops ops (apply_op op st)"

definition within_limit :: "budgets \<Rightarrow> string \<Rightarrow> bool" where
  "within_limit st s = (case st s of None \<Rightarrow> True | Some b \<Rightarrow> spent b \<le> limit b)"

text \<open>
  The calling discipline the manager is written for (check before, deduct after): limits
  and allocated amounts are not negative, and a spend is recorded only when \<open>canSpend\<close>
  accepts that amount on the state the call finds.
\<close>

fun op_checked :: "budgets \<Rightarrow> budget_op \<Rightarrow> bool" where
  "op_checked st (SetBudget s l) = (0 \<le> l)"
| "op_checked st (RecordSpend s a) = (canSpend s a st = Success)"
| "op_checked st (Allocate f t a) = (0 \<le> a)"

fun ops_checked :: "budgets \<Rightarrow> budget_op list \<Rightarrow> bool" where
  "ops_checked st [] = True"
| "ops_checked st (op # ops) = (op_checked st op \<and> ops_checked (apply_op op st) ops)"

section \<open>Event bus (src/events/event-bus.js)\<close>

text \<open>
  A field of a JavaScript object may be undefined, so the fields of a trace context are
  options; the default argument \<^verbatim>\<open>parentContext = {}\<close> of \<^verbatim>\<open>createEvent\<close> is the
  context with every field undefined. \<^verbatim>\<open>a || b\<close> on strings yields \<open>b\<close> when \<open>a\<close>
  is undefined or the empty string.
\<close>

record TraceContext =
  traceId :: "string option"
  spanId :: "string option"
  parentId :: "string option"

record EventMetadata =
  timestamp :: nat
  source :: string

record 'p Event =
  event_id :: string
  event_type :: string
  payload :: 'p
  trace :: TraceContext
  meta :: EventMetadata

definition empty_context :: TraceContext where
  "empty_context = \<lparr>traceId = None, spanId = None, parentId = None\<rparr>"

definition or_string :: "string option \<Rightarrow> string \<Rightarrow> string" where
  "or_string a b = (case a of None \<Rightarrow> b | Some s \<Rightarrow> if s = [] then b else s)"

text \<open>
  \<^verbatim>\<open>uuidv4()\<close> and \<^verbatim>\<open>Date.now()\<close> are read from the environment: the fresh span id and
  the clock reading are arguments.
\<close>

definition createEvent ::
  "string \<Rightarrow> 'p \<Rightarrow> string \<Rightarrow> TraceContext option \<Rightarrow> string \<Rightarrow> nat \<Rightarrow> 'p Event" where
  "createEvent type pl src parentContext uuid now =
     (let pc = (case parentContext of None \<Rightarrow> empty_context | Some c \<Rightarrow> c)
      in \<lparr>event_id = uuid,
          event_type = type,
          payload = pl,
          trace = \<lparr>traceId = Some (or_string (traceId pc) uuid),
                    spanId = Some uuid,
                    parentId = spanId pc\<rparr>,
          meta = \<lparr>timestamp = now, source = src\<rparr>\<rparr>)"

datatype log_level = Debug | Info | Warn | Error

datatype log_entry = Log log_level string

text \<open>
  A handler is modelled as a synchronous function on some state \<open>'w\<close> of the subscriber's
  world: it returns the new state and, when it throws, the message of what it threw.
  The function the emitter really holds also sees the logger, whose calls are collected in
  a list. The emitter keeps its listeners in registration order, each under the event name
  it was registered for; \<^verbatim>\<open>emitter.emit(name, event)\<close> calls the listeners of that name in
  order and an exception of a listener leaves the loop at once. The wrapper of \<^verbatim>\<open>on\<close>
  awaits the handler inside its \<^verbatim>\<open>try\<close>, so a rejected promise of an async handler is
  caught like a thrown exception; for a handler given to \<^verbatim>\<open>onAny\<close> only the synchronous
  exception is modelled. The functions that \<^verbatim>\<open>on\<close> and \<^verbatim>\<open>onAny\<close> return to
  unsubscribe are not modelled.
\<close>

type_synonym ('p, 'w) handler = "'p Event \<Rightarrow> 'w \<Rightarrow> 'w \<times> string option"

type_synonym ('p, 'w) listener =
  "'p Event \<Rightarrow> 'w \<times> log_entry list \<Rightarrow> ('w \<times> log_entry list) \<times> string option"

type_synonym ('p, 'w) emitter = "(string \<times> ('p, 'w) listener) list"

definition wrappedHandler :: "string \<Rightarrow> ('p, 'w) handler \<Rightarrow> ('p, 'w) listener" where
  "wrappedHandler type h =
     (\<lambda>event (w, logs).
        case h event w of
          (w', None) \<Rightarrow> ((w', logs), None)
        | (w', Some err) \<Rightarrow>
            ((w', logs @ [Log Error (''Error in handler for '' @ type)]), None))"

definition rawHandler :: "('p, 'w) handler \<Rightarrow> ('p, 'w) listener" where
  "rawHandler h = (\<lambda>event (w, logs). case h event w of (w', r) \<Rightarrow> ((w', logs), r))"

definition on :: "string \<Rightarrow> ('p, 'w) handler \<Rightarrow> ('p, 'w) emitter \<Rightarrow> ('p, 'w) emitter" where
  "on type h em = em @ [(type, wrappedHandler type h)]"

definition onAny :: "('p, 'w) handler \<Rightarrow> ('p, 'w) emitter \<Rightarrow> ('p, 'w) emitter" where
  "onAny h em = em @ [(''*'', rawHandler h)]"

fun call_listeners ::
  "('p, 'w) listener list \<Rightarrow> 'p Event \<Rightarrow> 'w \<times> log_entry list
     \<Rightarrow> ('w \<times> log_entry list) \<times> string option" where
  "call_listeners [] event s = (s, None)"
| "call_listeners (l # ls) event s =
     (case l event s of
        (s', Some err) \<Rightarrow> (s', Some err)
      | (s', None) \<Rightarrow> call_listeners ls event s')"

definition emitter_emit ::
  "('p, 'w) emitter \<Rightarrow> string \<Rightarrow> 'p Event \<Rightarrow> 'w \<times> log_entry list
     \<Rightarrow> ('w \<times> log_entry list) \<times> string option" where
  "emitter_emit em name event s =
     call_listeners (map snd (filter (\<lambda>(n, l). n = name) em)) event s"

text \<open>
  \<open>emit\<close> answers \<open>Inr event\<close> when it returns the event and \<open>Inl err\<close> when an exception
  reaches its caller; either way the state the listeners and the logger have left is
  returned beside it.
\<close>

definition emit ::
  "('p, 'w) emitter \<Rightarrow> string \<Rightarrow> 'p \<Rightarrow> string option \<Rightarrow> TraceContext option
     \<Rightarrow> string \<Rightarrow> nat \<Rightarrow> 'w \<times> log_entry list
     \<Rightarrow> (string + 'p Event) \<times> ('w \<times> log_entry list)" where
  "emit em type pl src parentContext uuid now s =
     (let event = createEvent type pl (case src of None \<Rightarrow> ''system'' | Some x \<Rightarrow> x)
                    parentContext uuid now;
          s0 = (fst s, snd s @ [Log Debug (''[Event] '' @ type @ '' | Trace: ''
                                   @ (case traceId (trace event) of
                                        None \<Rightarrow> ''undefined'' | Some x \<Rightarrow> x))])
      in case emitter_emit em type event s0 of
           (s1, Some err) \<Rightarrow> (Inl err, s1)
         | (s1, None) \<Rightarrow>
             (case emitter_emit em ''*'' event s1 of
                (s2, Some err) \<Rightarrow> (Inl err, s2)
              | (s2, None) \<Rightarrow> (Inr event, s2)))"

text \<open>
  Two sample handlers on a counter, for concrete runs of the bus, and the emitters all of
  whose listeners were registered through \<open>on\<close>.
\<close>

definition throwing_handler :: "string \<Rightarrow> ('p, nat) handler" where
  "throwing_handler msg = (\<lambda>event w. (w, Some msg))"

definition counting_handler :: "('p, nat) handler" where
  "counting_handler = (\<lambda>event w. (w + 1, None))"

definition allWrapped :: "('p, 'w) emitter \<Rightarrow> bool" where
  "allWrapped em = (\<forall>(n, l) \<in> set em. \<exists>ty h. l = wrappedHandler ty h)"

section \<open>Job orchestrator (src/orchestration/job-orchestrator.js)\<close>

datatype JOB_STATUS = CREATED | RUNNING | PAUSED | COMPLETED | FAILED

fun status_string :: "JOB_STATUS \<Rightarrow> string" where
  "status_string CREATED = ''created''"
| "status_string RUNNING = ''running''"
| "status_string PAUSED = ''paused''"
| "status_string COMPLETED = ''completed''"
| "status_string FAILED = ''failed''"

record JobPermissions =
  allowTools :: bool
  requireApproval :: bool
  maxSteps :: int

record JobTiming =
  created :: nat
  started :: "nat option"
  completed :: "nat option"

record ('v, 'h) Job =
  job_id :: string
  status :: JOB_STATUS
  job_context :: "string \<rightharpoonup> 'v"
  permissions :: JobPermissions
  history :: "'h list"
  timing :: JobTiming

text \<open>
  The store is the one of the orchestrator's tests (\<^verbatim>\<open>saveJob\<close> files a copy of the job
  under its id, \<^verbatim>\<open>getJob\<close> reads it); the event bus is the recording one of the same
  tests, which keeps the name and the job id of every emitted event. The injected
  \<^verbatim>\<open>budgetManager.canSpend\<close> is the argument \<open>budgetCheck\<close>; \<^verbatim>\<open>generateId()\<close> and
  \<^verbatim>\<open>Date.now()\<close> are read from the environment.
\<close>

record ('v, 'h) orchestrator_state =
  jobs :: "string \<rightharpoonup> ('v, 'h) Job"
  events :: "(string \<times> string) list"

definition saveJob ::
  "('v, 'h) Job \<Rightarrow> ('v, 'h) orchestrator_state \<Rightarrow> ('v, 'h) orchestrator_state" where
  "saveJob job st = st\<lparr>jobs := (jobs st)(job_id job \<mapsto> job)\<rparr>"

definition getJob :: "('v, 'h) orchestrator_state \<Rightarrow> string \<Rightarrow> ('v, 'h) Job option" where
  "getJob st jobId = jobs st jobId"

definition bus_emit ::
  "string \<Rightarrow> string \<Rightarrow> ('v, 'h) orchestrator_state \<Rightarrow> ('v, 'h) orchestrator_state" where
  "bus_emit name jobId st = st\<lparr>events := events st @ [(name, jobId)]\<rparr>"

definition default_permissions :: JobPermissions where
  "default_permissions = \<lparr>allowTools = False, requireApproval = True, maxSteps = 10\<rparr>"

definition createJob ::
  "(string \<rightharpoonup> 'v) option \<Rightarrow> JobPermissions option \<Rightarrow> string \<Rightarrow> nat
     \<Rightarrow> ('v, 'h) orchestrator_state \<Rightarrow> string \<times> ('v, 'h) orchestrator_state" where
  "createJob initialContext perms generatedId now st =
     (let job = \<lparr>job_id = generatedId,
                 status = CREATED,
                 job_context = (case initialContext of None \<Rightarrow> Map.empty | Some c \<Rightarrow> c),
                 permissions = (case perms of None \<Rightarrow> default_permissions | Some p \<Rightarrow> p),
                 history = [],
                 timing = \<lparr>created = now, started = None, completed = None\<rparr>\<rparr>
      in (job_id job, saveJob job st))"

definition is_failure :: "result \<Rightarrow> bool" where
  "is_failure r = (case r of Failure e \<Rightarrow> True | _ \<Rightarrow> False)"

definition set_started :: "nat \<Rightarrow> JobTiming \<Rightarrow> JobTiming" where
  "set_started now t =
     (case started t of
        None \<Rightarrow> t\<lparr>started := Some now\<rparr>
      | Some x \<Rightarrow> if x = 0 then t\<lparr>started := Some now\<rparr> else t)"

definition startJob ::
  "(string \<Rightarrow> result) \<Rightarrow> nat \<Rightarrow> string \<Rightarrow> ('v, 'h) orchestrator_state
     \<Rightarrow> result \<times> ('v, 'h) orchestrator_state" where
  "startJob budgetCheck now jobId st =
     (case getJob st jobId of
        None \<Rightarrow> (Failure ''Job not found'', st)
      | Some job \<Rightarrow>
          if status job \<noteq> CREATED \<and> status job \<noteq> PAUSED
          then (Failure (''Invalid state transition from '' @ status_string (status job)), st)
          else
            (let budgetOk = budgetCheck jobId
             in if is_failure budgetOk then (budgetOk, st)
                else
                  (let job' = job\<lparr>status := RUNNING, timing := set_started now (timing job)\<rparr>
                   in (Success, bus_emit ''job_started'' jobId (saveJob job' st)))))"

definition pauseJob ::
  "string \<Rightarrow> ('v, 'h) orchestrator_state \<Rightarrow> result \<times> ('v, 'h) orchestrator_state" where
  "pauseJob jobId st =
     (case getJob st jobId of
        None \<Rightarrow> (Failure ''Job not found'', st)
      | Some job \<Rightarrow>
          if status job \<noteq> RUNNING
          then (Failure ''Only running jobs can be paused'', st)
          else (Success, bus_emit ''job_paused'' jobId (saveJob (job\<lparr>status := PAUSED\<rparr>) st)))"

section \<open>Optimization pipeline (class OptimizationPipeline)\<close>

datatype candidate_status = Analyzing | ShadowTesting | Optimized

record OptimizationCandidate =
  cand_taskType :: string
  frequency :: nat
  avgCost :: rat
  cand_status :: candidate_status

text \<open>
  An implementation maps its input to \<open>Inr output\<close>, or to \<open>Inl message\<close> when it throws.
\<close>

record ('i, 'o) DeterministicFunction =
  fn_id :: string
  fn_taskType :: string
  code :: string
  testCases :: "string list"
  confidenceScore :: rat
  implementation :: "'i \<Rightarrow> string + 'o"

record ('i, 'o) completion_payload =
  p_taskType :: "string option"
  p_input :: 'i
  p_output :: 'o
  p_cost :: "rat option"

record ('i, 'o) pipeline =
  optimizationThreshold :: nat
  candidates :: "string \<rightharpoonup> OptimizationCandidate"
  activeFunctions :: "string \<rightharpoonup> ('i, 'o) DeterministicFunction"
  shadowFunctions :: "string \<rightharpoonup> ('i, 'o) DeterministicFunction"
  taskHistory :: "string \<rightharpoonup> ('i \<times> 'o) list"
  pipeline_log :: "log_entry list"

definition new_pipeline :: "nat option \<Rightarrow> ('i, 'o) pipeline" where
  "new_pipeline threshold =
     \<lparr>optimizationThreshold =
        (case threshold of None \<Rightarrow> 100 | Some n \<Rightarrow> if n = 0 then 100 else n),
      candidates = Map.empty,
      activeFunctions = Map.empty,
      shadowFunctions = Map.empty,
      taskHistory = Map.empty,
      pipeline_log = []\<rparr>"

definition quoted :: "string \<Rightarrow> string" where
  "quoted s = CHR 0x22 # s @ [CHR 0x22]"

definition logged :: "log_entry \<Rightarrow> ('i, 'o) pipeline \<Rightarrow> ('i, 'o) pipeline" where
  "logged e st = st\<lparr>pipeline_log := pipeline_log st @ [e]\<rparr>"

definition promoteToActive :: "string \<Rightarrow> ('i, 'o) pipeline \<Rightarrow> ('i, 'o) pipeline" where
  "promoteToActive taskType st =
     (case shadowFunctions st taskType of
        None \<Rightarrow> st
      | Some shadowFn \<Rightarrow>
          (let st1 = logged (Log Info (''Promoting shadow function for '' @ quoted taskType
                                        @ '' to ACTIVE.'')) st;
               st2 = st1\<lparr>activeFunctions := (activeFunctions st1)(taskType \<mapsto> shadowFn)\<rparr>;
               st3 = st2\<lparr>shadowFunctions := (shadowFunctions st2)(taskType := None)\<rparr>
           in case candidates st3 taskType of
                None \<Rightarrow> st3
              | Some candidate \<Rightarrow>
                  st3\<lparr>candidates :=
                        (candidates st3)(taskType \<mapsto> candidate\<lparr>cand_status := Optimized\<rparr>)\<rparr>))"

text \<open>
  \<^verbatim>\<open>_runShadowTest\<close> mutates the record it is given, which is the object the shadow map
  holds under the task type (\<^verbatim>\<open>_handleJobCompleted\<close> has just read it from there): the
  model writes the changed record back under that key. \<open>stringify\<close> stands for
  \<^verbatim>\<open>JSON.stringify\<close> on the outputs; the constants 0.05, 0.99 and 0.8 are the fractions
  \<open>1/20\<close>, \<open>99/100\<close> and \<open>4/5\<close>.
\<close>

definition or_number :: "rat \<Rightarrow> rat \<Rightarrow> rat" where
  "or_number a b = (if a = 0 then b else a)"

definition runShadowTest ::
  "('o \<Rightarrow> string) \<Rightarrow> string \<Rightarrow> ('i, 'o) DeterministicFunction \<Rightarrow> 'i \<Rightarrow> 'o
     \<Rightarrow> ('i, 'o) pipeline \<Rightarrow> ('i, 'o) pipeline" where
  "runShadowTest stringify taskType shadowFnRecord inp expectedOutput st =
     (case implementation shadowFnRecord inp of
        Inr actualOutput \<Rightarrow>
          (let match = (stringify actualOutput = stringify expectedOutput);
               alpha = 1 / 20;
               score = or_number (confidenceScore shadowFnRecord) 0 * (1 - alpha)
                         + (if match then 1 else 0) * alpha;
               st1 = st\<lparr>shadowFunctions :=
                          (shadowFunctions st)
                            (taskType \<mapsto> shadowFnRecord\<lparr>confidenceScore := score\<rparr>)\<rparr>;
               st2 = logged (Log Debug (''Shadow test for '' @ quoted taskType @ '': ''
                                         @ (if match then ''MATCH'' else ''MISMATCH''))) st1
           in if score > 99 / 100 then promoteToActive taskType st2 else st2)
      | Inl error \<Rightarrow>
          (let st1 = logged (Log Error (''Shadow test error for '' @ quoted taskType)) st
           in st1\<lparr>shadowFunctions :=
                    (shadowFunctions st1)
                      (taskType \<mapsto> shadowFnRecord\<lparr>confidenceScore :=
                                     confidenceScore shadowFnRecord * (4 / 5)\<rparr>)\<rparr>))"

definition push_history :: "('i \<times> 'o) \<Rightarrow> ('i \<times> 'o) list \<Rightarrow> ('i \<times> 'o) list" where
  "push_history entry h = (let h' = h @ [entry] in if length h' > 200 then tl h' else h')"

definition handleJobCompleted ::
  "('o \<Rightarrow> string) \<Rightarrow> ('i, 'o) completion_payload \<Rightarrow> ('i, 'o) pipeline \<Rightarrow> ('i, 'o) pipeline" where
  "handleJobCompleted stringify pl st =
     (case p_taskType pl of
        None \<Rightarrow> st
      | Some taskType \<Rightarrow>
          if taskType = [] then st
          else
            (let h = (case taskHistory st taskType of None \<Rightarrow> [] | Some xs \<Rightarrow> xs);
                 st1 = st\<lparr>taskHistory :=
                            (taskHistory st)
                              (taskType \<mapsto> push_history (p_input pl, p_output pl) h)\<rparr>;
                 candidate = (case candidates st1 taskType of
                                None \<Rightarrow> \<lparr>cand_taskType = taskType, frequency = 0, avgCost = 0,
                                          cand_status = Analyzing\<rparr>
                              | Some c \<Rightarrow> c);
                 freq = frequency candidate + 1;
                 candidate' = candidate\<lparr>frequency := freq,
                                avgCost := (avgCost candidate * of_nat (freq - 1)
                                              + (case p_cost pl of None \<Rightarrow> 0 | Some c \<Rightarrow> c))
                                           / of_nat freq\<rparr>;
                 st2 = st1\<lparr>candidates := (candidates st1)(taskType \<mapsto> candidate')\<rparr>;
                 st3 = (if cand_status candidate' = Analyzing
                           \<and> frequency candidate' \<ge> optimizationThreshold st2
                        then logged (Log Info (''Task type '' @ quoted taskType
                                                @ '' reached optimization threshold.'')) st2
                        else st2)
             in case shadowFunctions st3 taskType of
                  None \<Rightarrow> st3
                | Some shadowFn \<Rightarrow>
                    runShadowTest stringify taskType shadowFn (p_input pl) (p_output pl) st3))"

definition registerFunction ::
  "string \<Rightarrow> ('i \<Rightarrow> string + 'o) \<Rightarrow> string \<Rightarrow> bool \<Rightarrow> string \<Rightarrow> ('i, 'o) pipeline
     \<Rightarrow> string \<times> ('i, 'o) pipeline" where
  "registerFunction taskType fn fnText active nowText st =
     (let deterministicFn =
            \<lparr>fn_id = ''fn_'' @ nowText @ ''_'' @ taskType,
             fn_taskType = taskType,
             code = fnText,
             testCases = [],
             confidenceScore = (if active then 1 else 0),
             implementation = fn\<rparr>;
          newStatus = (if active then Optimized else ShadowTesting);
          st1 = (if active
                 then st\<lparr>activeFunctions := (activeFunctions st)(taskType \<mapsto> deterministicFn)\<rparr>
                 else st\<lparr>shadowFunctions := (shadowFunctions st)(taskType \<mapsto> deterministicFn)\<rparr>);
          st2 = (case candidates st1 taskType of
                   None \<Rightarrow>
                     st1\<lparr>candidates :=
                           (candidates st1)
                             (taskType \<mapsto> \<lparr>cand_taskType = taskType, frequency = 0, avgCost = 0,
                                          cand_status = newStatus\<rparr>)\<rparr>
                 | Some c \<Rightarrow>
                     st1\<lparr>candidates :=
                           (candidates st1)(taskType \<mapsto> c\<lparr>cand_status := newStatus\<rparr>)\<rparr>)
      in (fn_id deterministicFn, st2))"

definition getOptimizedFunction ::
  "string \<Rightarrow> ('i, 'o) pipeline \<Rightarrow> ('i \<Rightarrow> string + 'o) option" where
  "getOptimizedFunction taskType st =
     (case activeFunctions st taskType of
        None \<Rightarrow> None
      | Some record \<Rightarrow> Some (implementation record))"

section \<open>Model gateway (src/models/model-gateway.js)\<close>

record CostConfig =
  input1k :: rat
  output1k :: rat

record ModelConfig =
  model_id :: string
  provider :: string
  capabilities :: "string list"
  model_cost :: "CostConfig option"

record UsageStats =
  promptTokens :: nat
  completionTokens :: nat
  totalTokens :: nat

record ('m, 't) ModelRequest =
  modelId :: string
  messages :: 'm
  tools :: "'t list option"
  req_taskType :: "string option"

record 'c RawResponse =
  raw_content :: string
  raw_toolCalls :: "'c option"
  raw_usage :: "UsageStats option"

record 'c ResponseData =
  content :: string
  toolCalls :: "'c option"

record ResponseUsage =
  usage_stats :: "UsageStats option"
  usage_cost :: rat

record ResponseMeta =
  meta_modelId :: string
  meta_provider :: "string option"
  latencyMs :: nat
  meta_usage :: ResponseUsage

text \<open>
  \<^verbatim>\<open>call\<close> resolves to a response object, \<open>CallSuccess\<close> or \<open>CallFailure\<close>, or its promise
  is rejected with an exception that no \<^verbatim>\<open>try\<close> block of the gateway covers: \<open>CallRejected\<close>
  with the exception's message. The provider of a response's meta is the \<^verbatim>\<open>provider\<close>
  field of whatever the model lookup returned, which may be undefined.
\<close>

datatype 'c ModelResponse =
    CallSuccess "'c ResponseData" ResponseMeta
  | CallFailure string
  | CallRejected string

subsection \<open>Binary64 arithmetic\<close>

text \<open>
  A finite double is a rational \<open>n \<times> 2^q\<close> with \<open>|n| < 2^53\<close> and \<open>q \<ge> -1074\<close>.
  \<open>round_double\<close> is the rounding every arithmetic operation and every number literal
  goes through: to the nearest such rational, a tie going to the even \<open>n\<close>; the quantum
  \<open>2^q\<close> is \<open>2^(e - 52)\<close> for a magnitude in \<open>[2^e, 2^(e+1))\<close> and never below
  \<open>2^(-1074)\<close>. \<open>log2_up\<close> and \<open>log2_down\<close> find the exponent \<open>e\<close> by halving and
  doubling. An operation whose rounded result reaches \<open>2^1024\<close> in magnitude overflows to
  an infinity, which a rational cannot express: \<open>finite_double\<close> tells the rationals that
  are finite doubles, and what is proved of a computation in doubles is proved where every
  step stays finite.
\<close>

definition pow2 :: "int \<Rightarrow> rat" where
  "pow2 e = (if 0 \<le> e then 2 ^ nat e else 1 / 2 ^ nat (- e))"

function log2_up :: "rat \<Rightarrow> int" where
  "log2_up x = (if 2 \<le> x then log2_up (x / 2) + 1 else 0)"
  by pat_completeness auto
termination
proof (relation "measure (\<lambda>x. nat \<lceil>x\<rceil>)")
  show "wf (measure (\<lambda>x::rat. nat \<lceil>x\<rceil>))" by simp
next
  fix x :: rat
  assume x: "2 \<le> x"
  have a: "x \<le> of_int \<lceil>x\<rceil>" by (rule le_of_int_ceiling)
  have b: "(2::rat) \<le> of_int \<lceil>x\<rceil>" using a x by linarith
  have "x / 2 \<le> of_int \<lceil>x\<rceil> - 1" using a b by linarith
  then have "x / 2 \<le> of_int (\<lceil>x\<rceil> - 1)" by simp
  then have "\<lceil>x / 2\<rceil> \<le> \<lceil>x\<rceil> - 1" by (simp only: ceiling_le_iff)
  then have lt: "\<lceil>x / 2\<rceil> < \<lceil>x\<rceil>" by linarith
  have pos: "0 < \<lceil>x\<rceil>" using b by linarith
  show "(x / 2, x) \<in> measure (\<lambda>x. nat \<lceil>x\<rceil>)"
    unfolding in_measure zless_nat_conj using lt pos by blast
qed

function log2_down :: "rat \<Rightarrow> int" where
  "log2_down x = (if 0 < x \<and> x < 1 then log2_down (2 * x) - 1 else 0)"
  by pat_completeness auto
termination
proof (relation "measure (\<lambda>x. nat \<lceil>1 / x\<rceil>)")
  show "wf (measure (\<lambda>x::rat. nat \<lceil>1 / x\<rceil>))" by simp
next
  fix x :: rat
  assume "0 < x \<and> x < 1"
  then have x: "0 < x" "x < 1" by simp_all
  define y where "y = 1 / x"
  have y: "1 < y" using x by (simp add: y_def)
  have a: "y \<le> of_int \<lceil>y\<rceil>" by (rule le_of_int_ceiling)
  have "(1::rat) < of_int \<lceil>y\<rceil>" using a y by linarith
  then have "1 < \<lceil>y\<rceil>" by simp
  then have b: "(2::rat) \<le> of_int \<lceil>y\<rceil>" by linarith
  have "y / 2 \<le> of_int \<lceil>y\<rceil> - 1" using a b by linarith
  then have "y / 2 \<le> of_int (\<lceil>y\<rceil> - 1)" by simp
  then have "\<lceil>y / 2\<rceil> \<le> \<lceil>y\<rceil> - 1" by (simp only: ceiling_le_iff)
  then have "\<lceil>y / 2\<rceil> < \<lceil>y\<rceil>" by linarith
  moreover have "1 / (2 * x) = y / 2" by (simp add: y_def)
  ultimately have lt: "\<lceil>1 / (2 * x)\<rceil> < \<lceil>1 / x\<rceil>" by (simp only: y_def)
  have pos: "0 < \<lceil>1 / x\<rceil>" using b unfolding y_def by linarith
  show "(2 * x, x) \<in> measure (\<lambda>x. nat \<lceil>1 / x\<rceil>)"
    unfolding in_measure zless_nat_conj using lt pos by blast
qed

declare log2_up.simps [simp del] log2_down.simps [simp del]

definition floor_log2 :: "rat \<Rightarrow> int" where
  "floor_log2 x = (if 1 \<le> x then log2_up x else log2_down x)"

definition round_half_even :: "rat \<Rightarrow> int" where
  "round_half_even x =
     (let f = \<lfloor>x\<rfloor>; d = x - of_int f
      in if d < 1 / 2 then f else if 1 / 2 < d then f + 1 else if even f then f else f + 1)"

definition round_double :: "rat \<Rightarrow> rat" where
  "round_double x =
     (if x = 0 then 0
      else
        (let a = \<bar>x\<bar>;
             q = max (floor_log2 a - 52) (- 1074);
             r = of_int (round_half_even (a / pow2 q)) * pow2 q
         in if x < 0 then - r else r))"

definition finite_double :: "rat \<Rightarrow> bool" where
  "finite_double x = (round_double x = x \<and> \<bar>x\<bar> < 2 ^ 1024)"

text \<open>
  The operators \<^verbatim>\<open>/\<close>, \<^verbatim>\<open>*\<close> and \<^verbatim>\<open>+\<close> on doubles (the divisor is never zero here), and
  \<^verbatim>\<open>Number(x.toFixed(digits))\<close>: \<^verbatim>\<open>toFixed\<close> prints the decimal with \<open>digits\<close> fraction
  digits that is nearest to the exact value of the double, a tie going to the larger
  magnitude (\<open>toFixed_decimal\<close>), and \<^verbatim>\<open>Number\<close> reads the double nearest to that decimal;
  from \<open>10^21\<close> on \<^verbatim>\<open>toFixed\<close> prints the number itself.
\<close>

definition js_div :: "rat \<Rightarrow> rat \<Rightarrow> rat" where
  "js_div a b = round_double (a / b)"

definition js_mul :: "rat \<Rightarrow> rat \<Rightarrow> rat" where
  "js_mul a b = round_double (a * b)"

definition js_add :: "rat \<Rightarrow> rat \<Rightarrow> rat" where
  "js_add a b = round_double (a + b)"

definition toFixed_decimal :: "nat \<Rightarrow> rat \<Rightarrow> rat" where
  "toFixed_decimal digits a = of_int \<lfloor>a * 10 ^ digits + 1 / 2\<rfloor> / 10 ^ digits"

definition toFixed_Number :: "nat \<Rightarrow> rat \<Rightarrow> rat" where
  "toFixed_Number digits x =
     (let a = \<bar>x\<bar>;
          r = (if 10 ^ 21 \<le> a then a else round_double (toFixed_decimal digits a))
      in if x < 0 then - r else r)"

subsection \<open>Property lookup on plain objects\<close>

text \<open>
  \<^verbatim>\<open>config.models\<close> and \<^verbatim>\<open>providerQueues\<close> are plain objects read with \<^verbatim>\<open>object[key]\<close>.
  Such a read finds the object's own property, and failing that the property of that name
  which every plain object inherits from \<^verbatim>\<open>Object.prototype\<close>; otherwise it is undefined.
  An inherited member is a function (or, for \<^verbatim>\<open>__proto__\<close>, the prototype object): it is
  truthy and has none of the fields of a configuration or a queue.
\<close>

definition Object_prototype_members :: "string list" where
  "Object_prototype_members =
     [''constructor'', ''__defineGetter__'', ''__defineSetter__'', ''hasOwnProperty'',
      ''__lookupGetter__'', ''__lookupSetter__'', ''isPrototypeOf'', ''propertyIsEnumerable'',
      ''toString'', ''valueOf'', ''__proto__'', ''toLocaleString'']"

datatype 'a property = Undefined | Inherited | Own 'a

definition property_of :: "(string \<rightharpoonup> 'a) \<Rightarrow> string \<Rightarrow> 'a property" where
  "property_of object key =
     (case object key of
        Some v \<Rightarrow> Own v
      | None \<Rightarrow> if key \<in> set Object_prototype_members then Inherited else Undefined)"

definition apostrophe :: string where
  "apostrophe = [CHR 0x27]"

definition TypeError_reading :: "string \<Rightarrow> string" where
  "TypeError_reading field =
     ''Cannot read properties of undefined (reading '' @ apostrophe @ field @ apostrophe @ '')''"

subsection \<open>The gateway\<close>

text \<open>
  Of a model's configuration the gateway reads the provider, the capabilities and the
  cost, which may be missing (\<^verbatim>\<open>!modelConf.cost\<close>); the context window is never read and
  is left out. A provider queue is modelled by what \<^verbatim>\<open>queue.enqueue(() => queue.client.generate(request))\<close>
  comes to for a request: \<open>Inr\<close> the raw response, or \<open>Inl\<close> the message of the exception
  (of the queue or of the provider). The gateway's effects are the calls it makes on its
  collaborators, in order: on the logger, on \<^verbatim>\<open>enqueue\<close> (with the provider whose queue is
  entered), on the optional performance monitor and on the optional job logger. The
  performance monitor only records, so the model keeps whether it was injected; the job
  logger's \<^verbatim>\<open>logWorkDone\<close> is awaited inside the \<^verbatim>\<open>try\<close> block, so it is modelled by
  what it throws for a job id, if anything. \<open>latency\<close> is the difference of the two clock
  readings.
\<close>

type_synonym ('m, 't, 'c) provider_queue = "('m, 't) ModelRequest \<Rightarrow> string + 'c RawResponse"

datatype gateway_effect =
    Logged log_entry
  | Enqueued string
  | LatencyRecorded nat string "string option"
  | ThroughputRecorded nat nat string "string option"
  | ErrorRecorded string "string option"
  | WorkLogged string rat "nat option" string

record ('m, 't, 'c, 'o) gateway =
  models :: "string \<rightharpoonup> ModelConfig"
  providerQueues :: "string \<rightharpoonup> ('m, 't, 'c) provider_queue"
  performanceMonitor :: bool
  jobLogger :: "(string \<Rightarrow> string option) option"
  optimizationPipeline :: "('m, 'o) pipeline option"

definition CAPABILITY_TOOLS :: string where
  "CAPABILITY_TOOLS = ''tools''"

text \<open>
  \<^verbatim>\<open>validateCapabilities\<close> answers a result, or throws: for an inherited member as
  \<^verbatim>\<open>modelConf\<close> and a request with tools, \<^verbatim>\<open>modelConf.capabilities\<close> is undefined and
  \<^verbatim>\<open>.includes\<close> on it is a TypeError (\<open>Inl\<close>, with the message of Node's engine).
\<close>

definition validateCapabilities ::
  "('m, 't, 'c, 'o) gateway \<Rightarrow> string \<Rightarrow> ('m, 't) ModelRequest \<Rightarrow> string + result" where
  "validateCapabilities gw mid request =
     (case property_of (models gw) mid of
        Undefined \<Rightarrow> Inr (Failure ''Unknown model'')
      | Inherited \<Rightarrow>
          if tools request \<noteq> None then Inl (TypeError_reading ''includes'') else Inr Success
      | Own modelConf \<Rightarrow>
          if tools request \<noteq> None \<and> CAPABILITY_TOOLS \<notin> set (capabilities modelConf)
          then Inr (Failure ''Model does not support tools'')
          else Inr Success)"

text \<open>
  The cost, computed in doubles as the code writes it: two quotients, two products and a
  sum, each rounded.
\<close>

definition double_cost :: "CostConfig \<Rightarrow> UsageStats \<Rightarrow> rat" where
  "double_cost c u =
     (let inputCost = js_mul (js_div (of_nat (promptTokens u)) 1000) (input1k c);
          outputCost = js_mul (js_div (of_nat (completionTokens u)) 1000) (output1k c)
      in js_add inputCost outputCost)"

definition calculateCost ::
  "('m, 't, 'c, 'o) gateway \<Rightarrow> string \<Rightarrow> UsageStats option \<Rightarrow> rat" where
  "calculateCost gw mid usage =
     (case property_of (models gw) mid of
        Undefined \<Rightarrow> 0
      | Inherited \<Rightarrow> 0
      | Own modelConf \<Rightarrow>
          (case model_cost modelConf of
             None \<Rightarrow> 0
           | Some c \<Rightarrow>
               (case usage of
                  None \<Rightarrow> 0
                | Some u \<Rightarrow> toFixed_Number 6 (double_cost c u))))"

text \<open>
  Step 0 of \<^verbatim>\<open>call\<close>, the deterministic bypass. The guard \<^verbatim>\<open>request.taskType && optimizationPipeline\<close>
  holds for a task type that is a non-empty string and a pipeline that was injected.
  \<open>asString\<close> and \<open>stringify\<close> stand for \<^verbatim>\<open>typeof result === "string"\<close> and
  \<^verbatim>\<open>JSON.stringify(result)\<close> on the substitute's output.
\<close>

datatype 'o bypass_outcome = NoBypass | BypassReturned 'o | BypassThrew string

definition deterministic_bypass ::
  "('m, 't, 'c, 'o) gateway \<Rightarrow> ('m, 't) ModelRequest \<Rightarrow> 'o bypass_outcome" where
  "deterministic_bypass gw request =
     (case req_taskType request of
        None \<Rightarrow> NoBypass
      | Some taskType \<Rightarrow>
          if taskType = [] then NoBypass
          else
            (case optimizationPipeline gw of
               None \<Rightarrow> NoBypass
             | Some pl \<Rightarrow>
                 (case getOptimizedFunction taskType pl of
                    None \<Rightarrow> NoBypass
                  | Some optimizedFn \<Rightarrow>
                      (case optimizedFn (messages request) of
                         Inr r \<Rightarrow> BypassReturned r
                       | Inl err \<Rightarrow> BypassThrew err))))"

definition bypass_response ::
  "('o \<Rightarrow> string option) \<Rightarrow> ('o \<Rightarrow> string) \<Rightarrow> nat \<Rightarrow> 'o \<Rightarrow> 'c ModelResponse" where
  "bypass_response asString stringify latency r =
     CallSuccess
       \<lparr>content = (case asString r of Some s \<Rightarrow> s | None \<Rightarrow> stringify r), toolCalls = None\<rparr>
       \<lparr>meta_modelId = ''deterministic'',
        meta_provider = Some ''internal'',
        latencyMs = latency,
        meta_usage = \<lparr>usage_stats = Some \<lparr>promptTokens = 0, completionTokens = 0,
                                           totalTokens = 0\<rparr>,
                      usage_cost = 0\<rparr>\<rparr>"

text \<open>
  Steps 1 to 5 of \<^verbatim>\<open>call\<close>: validation, the provider's queue, cost, metrics, work log
  and response. Validation and the two lookups stand outside the \<^verbatim>\<open>try\<close> block.
  \<open>conf_provider\<close> is \<^verbatim>\<open>modelConf.provider\<close>, undefined for an inherited member; as a
  property key and inside the error message an undefined provider reads \<open>undefined\<close>. The
  second lookup of the model follows a validation that has just found something, so its
  \<open>Undefined\<close> branch is never reached (there \<^verbatim>\<open>modelConf.provider\<close> would be a TypeError).
  An inherited member found in place of a queue has no \<^verbatim>\<open>enqueue\<close>: calling it is a
  TypeError inside the \<^verbatim>\<open>try\<close> block, and no queue is entered. \<open>call_failed\<close> is the
  \<^verbatim>\<open>catch\<close> block.
\<close>

definition conf_provider :: "ModelConfig property \<Rightarrow> string option" where
  "conf_provider modelConf = (case modelConf of Own c \<Rightarrow> Some (provider c) | _ \<Rightarrow> None)"

definition shown :: "string option \<Rightarrow> string" where
  "shown v = (case v of None \<Rightarrow> ''undefined'' | Some x \<Rightarrow> x)"

definition call_failed ::
  "('m, 't, 'c, 'o) gateway \<Rightarrow> ('m, 't) ModelRequest \<Rightarrow> string option \<Rightarrow> string
     \<Rightarrow> gateway_effect list \<Rightarrow> 'c ModelResponse \<times> gateway_effect list" where
  "call_failed gw request prov err effects =
     (CallFailure (if err = [] then ''Unknown error during model call'' else err),
      effects @ [Logged (Log Error (''Model Gateway Error: '' @ err))]
        @ (if performanceMonitor gw then [ErrorRecorded (modelId request) prov] else []))"

definition queue_call ::
  "('m, 't, 'c, 'o) gateway \<Rightarrow> ('m, 't) ModelRequest \<Rightarrow> string option \<Rightarrow> nat
     \<Rightarrow> string option \<Rightarrow> ('m, 't, 'c) provider_queue
     \<Rightarrow> 'c ModelResponse \<times> gateway_effect list" where
  "queue_call gw request jobId latency prov queue =
     (case queue request of
        Inl err \<Rightarrow> call_failed gw request prov err [Enqueued (shown prov)]
      | Inr rawResponse \<Rightarrow>
          (let cost = calculateCost gw (modelId request) (raw_usage rawResponse);
               m = \<lparr>meta_modelId = modelId request,
                    meta_provider = prov,
                    latencyMs = latency,
                    meta_usage = \<lparr>usage_stats = raw_usage rawResponse, usage_cost = cost\<rparr>\<rparr>;
               metrics =
                 (if performanceMonitor gw
                  then LatencyRecorded latency (modelId request) prov
                       # (case raw_usage rawResponse of
                            None \<Rightarrow> []
                          | Some u \<Rightarrow>
                              if totalTokens u = 0 then []
                              else [ThroughputRecorded (totalTokens u) latency
                                      (modelId request) prov])
                  else []);
               effects = Enqueued (shown prov) # metrics;
               response = CallSuccess
                            \<lparr>content = raw_content rawResponse,
                             toolCalls = raw_toolCalls rawResponse\<rparr> m
           in case jobId of
                None \<Rightarrow> (response, effects)
              | Some jid \<Rightarrow>
                  if jid = [] then (response, effects)
                  else
                    (case jobLogger gw of
                       None \<Rightarrow> (response, effects)
                     | Some logWorkDone \<Rightarrow>
                         (case logWorkDone jid of
                            Some err \<Rightarrow> call_failed gw request prov err effects
                          | None \<Rightarrow>
                              (response,
                               effects
                                 @ [WorkLogged jid cost
                                      (map_option totalTokens (raw_usage rawResponse))
                                      (modelId request)])))))"

definition provider_call ::
  "('m, 't, 'c, 'o) gateway \<Rightarrow> ('m, 't) ModelRequest \<Rightarrow> string option \<Rightarrow> nat
     \<Rightarrow> 'c ModelResponse \<times> gateway_effect list" where
  "provider_call gw request jobId latency =
     (case validateCapabilities gw (modelId request) request of
        Inl err \<Rightarrow> (CallRejected err, [])
      | Inr (Failure e) \<Rightarrow> (CallFailure e, [])
      | Inr _ \<Rightarrow>
          (case property_of (models gw) (modelId request) of
             Undefined \<Rightarrow> (CallRejected (TypeError_reading ''provider''), [])
           | modelConf \<Rightarrow>
               (let prov = conf_provider modelConf
                in case property_of (providerQueues gw) (shown prov) of
                     Undefined \<Rightarrow>
                       (let errorMsg = ''No queue for provider: '' @ shown prov
                        in (CallFailure errorMsg, [Logged (Log Error errorMsg)]))
                   | Inherited \<Rightarrow>
                       call_failed gw request prov ''queue.enqueue is not a function'' []
                   | Own queue \<Rightarrow> queue_call gw request jobId latency prov queue)))"

definition call ::
  "('o \<Rightarrow> string option) \<Rightarrow> ('o \<Rightarrow> string) \<Rightarrow> ('m, 't, 'c, 'o) gateway
     \<Rightarrow> ('m, 't) ModelRequest \<Rightarrow> string option \<Rightarrow> nat
     \<Rightarrow> 'c ModelResponse \<times> gateway_effect list" where
  "call asString stringify gw request jobId latency =
     (case deterministic_bypass gw request of
        BypassReturned r \<Rightarrow>
          (bypass_response asString stringify latency r,
           [Logged (Log Info (''Using deterministic bypass for taskType: ''
                               @ (case req_taskType request of None \<Rightarrow> [] | Some t \<Rightarrow> t)))])
      | BypassThrew err \<Rightarrow>
          (case provider_call gw request jobId latency of
             (response, effects) \<Rightarrow>
               (response,
                Logged (Log Error (''Deterministic bypass failed for ''
                                    @ (case req_taskType request of None \<Rightarrow> [] | Some t \<Rightarrow> t)
                                    @ '': '' @ err @ ''. Falling back to LLM.'')) # effects))
      | NoBypass \<Rightarrow> provider_call gw request jobId latency)"

definition enqueued :: "gateway_effect list \<Rightarrow> string list" where
  "enqueued effects = concat (map (\<lambda>e. case e of Enqueued p \<Rightarrow> [p] | _ \<Rightarrow> []) effects)"

text \<open>The cost as the specification words it, with no rounding.\<close>

definition spec_cost :: "CostConfig \<Rightarrow> UsageStats \<Rightarrow> rat" where
  "spec_cost c u =
     (of_nat (promptTokens u) / 1000) * input1k c
       + (of_nat (completionTokens u) / 1000) * output1k c"

text \<open>
  The inputs on which the rational reading of the cost is the computation in doubles: token
  counts and rates that are finite doubles (every natural number below \<open>2^53\<close> is one),
  and two products and a sum that do not overflow.
\<close>

definition cost_in_doubles :: "CostConfig \<Rightarrow> UsageStats \<Rightarrow> bool" where
  "cost_in_doubles c u =
     (promptTokens u < 2 ^ 53 \<and> completionTokens u < 2 ^ 53 \<and>
      finite_double (input1k c) \<and> finite_double (output1k c) \<and>
      \<bar>js_mul (js_div (of_nat (promptTokens u)) 1000) (input1k c)\<bar> < 2 ^ 1024 \<and>
      \<bar>js_mul (js_div (of_nat (completionTokens u)) 1000) (output1k c)\<bar> < 2 ^ 1024 \<and>
      \<bar>double_cost c u\<bar> < 2 ^ 1024)"

section \<open>Specification-side notions and sample data\<close>

text \<open>
  The confidence after one shadow test as the specification words it: a match moves the
  score toward 1 by the learning rate \<open>1/20\<close>, a mismatch toward 0 by the same rate.
\<close>

definition nudged :: "rat \<Rightarrow> bool \<Rightarrow> rat" where
  "nudged c match = (if match then c + (1 / 20) * (1 - c) else c - (1 / 20) * c)"

text \<open>
  Sample data: the model configuration of the gateway's tests, extended by a model with
  small per-token rates (a rate written \<^verbatim>\<open>0.03\<close> in JavaScript is the double nearest to
  \<open>3/100\<close>); a provider queue that answers every request with a fixed usage; an
  echoing and a throwing substitute with a given confidence; a pipeline holding one of them
  as shadow function; a pipeline with a substitute registered as active; a completion
  event.
\<close>

definition gpt4_cost :: CostConfig where
  "gpt4_cost = \<lparr>input1k = round_double (3 / 100), output1k = round_double (6 / 100)\<rparr>"

definition small_cost :: CostConfig where
  "small_cost = \<lparr>input1k = round_double (15 / 100000), output1k = round_double (6 / 10000)\<rparr>"

definition test_models :: "string \<rightharpoonup> ModelConfig" where
  "test_models =
     [''gpt-4'' \<mapsto> \<lparr>model_id = ''gpt-4'', provider = ''openai'',
                     capabilities = [''tools'', ''json_mode''],
                     model_cost = Some gpt4_cost\<rparr>,
      ''claude-3'' \<mapsto> \<lparr>model_id = ''claude-3'', provider = ''anthropic'',
                        capabilities = [''tools''],
                        model_cost = Some \<lparr>input1k = round_double (15 / 1000),
                                                output1k = round_double (75 / 1000)\<rparr>\<rparr>,
      ''basic-model'' \<mapsto> \<lparr>model_id = ''basic-model'', provider = ''local'',
                           capabilities = [],
                           model_cost = Some \<lparr>input1k = 0, output1k = 0\<rparr>\<rparr>,
      ''small-model'' \<mapsto> \<lparr>model_id = ''small-model'', provider = ''openai'',
                           capabilities = [],
                           model_cost = Some small_cost\<rparr>]"

definition mock_queue :: "UsageStats \<Rightarrow> (string, string, unit) provider_queue" where
  "mock_queue u = (\<lambda>request. Inr \<lparr>raw_content = ''Hello world'', raw_toolCalls = None,
                                    raw_usage = Some u\<rparr>)"

definition test_gateway ::
  "UsageStats \<Rightarrow> (string, string) pipeline option \<Rightarrow> (string, string, unit, string) gateway" where
  "test_gateway u pl =
     \<lparr>models = test_models, providerQueues = [''openai'' \<mapsto> mock_queue u],
      performanceMonitor = False, jobLogger = None, optimizationPipeline = pl\<rparr>"

definition test_request ::
  "string \<Rightarrow> string list option \<Rightarrow> string option \<Rightarrow> (string, string) ModelRequest" where
  "test_request mid tls tt = \<lparr>modelId = mid, messages = ''hi'', tools = tls, req_taskType = tt\<rparr>"

definition usage_10_20 :: UsageStats where
  "usage_10_20 = \<lparr>promptTokens = 10, completionTokens = 20, totalTokens = 30\<rparr>"

definition usage_7_0 :: UsageStats where
  "usage_7_0 = \<lparr>promptTokens = 7, completionTokens = 0, totalTokens = 7\<rparr>"

definition echo_function :: "rat \<Rightarrow> (string, string) DeterministicFunction" where
  "echo_function c =
     \<lparr>fn_id = ''fn_0_log_summarizer'', fn_taskType = ''log_summarizer'', code = ''x => x'',
      testCases = [], confidenceScore = c, implementation = Inr\<rparr>"

definition failing_function :: "rat \<Rightarrow> (string, string) DeterministicFunction" where
  "failing_function c = (echo_function c)\<lparr>implementation := (\<lambda>x. Inl ''boom'')\<rparr>"

definition shadow_pipeline ::
  "(string, string) DeterministicFunction \<Rightarrow> (string, string) pipeline" where
  "shadow_pipeline f = (new_pipeline None)\<lparr>shadowFunctions := [''log_summarizer'' \<mapsto> f]\<rparr>"

definition active_pipeline :: "(string \<Rightarrow> string + string) \<Rightarrow> (string, string) pipeline" where
  "active_pipeline fn =
     snd (registerFunction ''log_summarizer'' fn ''x => x'' True ''0'' (new_pipeline None))"

definition completion :: "string \<Rightarrow> string \<Rightarrow> (string, string) completion_payload" where
  "completion i out =
     \<lparr>p_taskType = Some ''log_summarizer'', p_input = i, p_output = out, p_cost = Some (1 / 100)\<rparr>"

section \<open>Budget ledger: properties\<close>

lemmas ledger_defs =
  allocate_def setBudget_def recordSpend_def canSpend_def upsertBudget_def updateBudget_def
  getBudget_def merge_update_def

lemma within_limit_setBudget:
  "0 \<le> l \<Longrightarrow> \<forall>x. within_limit st x \<Longrightarrow> within_limit (snd (setBudget s l st)) x"
  by (simp add: within_limit_def setBudget_def upsertBudget_def)

lemma within_limit_recordSpend:
  "canSpend s a st = Success \<Longrightarrow> \<forall>x. within_limit st x \<Longrightarrow>
   within_limit (snd (recordSpend s a st)) x"
  by (auto simp: within_limit_def recordSpend_def canSpend_def getBudget_def updateBudget_def
      merge_update_def Let_def split: option.splits if_splits)

lemma within_limit_allocate:
  assumes "0 \<le> a" and inv: "\<forall>x. within_limit st x"
  shows "within_limit (snd (allocate f t a st)) x"
proof (cases "st f")
  case None
  then show ?thesis using inv by (simp add: allocate_def getBudget_def)
next
  case (Some p)
  have ip: "spent p \<le> limit p"
    using inv Some by (auto simp: within_limit_def dest: spec[of _ f])
  show ?thesis
  proof (cases "limit p < spent p + a")
    case True
    then show ?thesis using inv Some by (simp add: allocate_def getBudget_def)
  next
    case False
    have ix: "within_limit st x" using inv by simp
    have it: "within_limit st t" using inv by simp
    show ?thesis using False Some ix it ip assms(1)
      by (auto simp: allocate_def getBudget_def updateBudget_def upsertBudget_def
          merge_update_def Let_def within_limit_def split: option.splits)
  qed
qed

lemma within_limit_apply_op:
  "op_checked st op \<Longrightarrow> \<forall>x. within_limit st x \<Longrightarrow> within_limit (apply_op op st) x"
  by (cases op)
     (simp_all add: within_limit_setBudget within_limit_recordSpend within_limit_allocate)

lemma within_limit_run_ops:
  "ops_checked st ops \<Longrightarrow> \<forall>x. within_limit st x \<Longrightarrow> within_limit (run_ops ops st) x"
proof (induction ops arbitrary: st)
  case Nil
  then show ?case by simp
next
  case (Cons op ops)
  have "\<forall>x. within_limit (apply_op op st) x"
    using Cons.prems by (auto intro: within_limit_apply_op)
  then show ?case using Cons by simp
qed

text \<open>
  Claim C1, as stated, fails: \<open>recordSpend\<close> adds the amount with no look at the limit, so
  a budget of 10 followed by a recorded spend of 20 leaves \<open>spent = 20\<close> over \<open>limit = 10\<close>.
\<close>

theorem spent_le_limit_counterexample:
  "\<not> within_limit
        (run_ops [SetBudget ''global'' 10, RecordSpend ''global'' 20] Map.empty) ''global''"
  by (simp add: within_limit_def setBudget_def recordSpend_def upsertBudget_def updateBudget_def
      getBudget_def merge_update_def Let_def)

text \<open>
  Claim C1, amended: starting from the empty store, after any finite sequence of
  \<open>setBudget\<close> calls with a non-negative limit, \<open>allocate\<close> calls with a non-negative
  amount, and \<open>recordSpend\<close> calls each made when \<open>canSpend\<close> accepts that amount for that
  scope, every scope has \<open>spent \<le> limit\<close>.
\<close>

theorem spent_le_limit_checked:
  "ops_checked Map.empty ops \<Longrightarrow> within_limit (run_ops ops Map.empty) s"
  by (rule within_limit_run_ops) (simp_all add: within_limit_def)

text \<open>
  The amended C1 at the ledger's own test data: a budget of 100, a checked spend of 70 and
  an allocation of 30 to a sub-agent, which takes the parent exactly to its limit.
\<close>

theorem spent_le_limit_checked_witness:
  "ops_checked Map.empty
     [SetBudget ''job-1'' 100, RecordSpend ''job-1'' 70, Allocate ''job-1'' ''agent-1'' 30]
   \<and> within_limit
       (run_ops [SetBudget ''job-1'' 100, RecordSpend ''job-1'' 70,
                 Allocate ''job-1'' ''agent-1'' 30] Map.empty) ''job-1''
   \<and> map_option spent
       (run_ops [SetBudget ''job-1'' 100, RecordSpend ''job-1'' 70,
                 Allocate ''job-1'' ''agent-1'' 30] Map.empty ''job-1'') = Some 100"
proof -
  have h: "ops_checked Map.empty
     [SetBudget ''job-1'' 100, RecordSpend ''job-1'' 70, Allocate ''job-1'' ''agent-1'' 30]"
    by (simp add: canSpend_def setBudget_def recordSpend_def upsertBudget_def updateBudget_def
      getBudget_def merge_update_def Let_def)
  show ?thesis using h spent_le_limit_checked [OF h, of "''job-1''"]
    by (simp add: allocate_def setBudget_def recordSpend_def upsertBudget_def updateBudget_def
      getBudget_def merge_update_def Let_def)
qed




text \<open>
  The ledger on the specification's example: with a limit of 100, a spend of 150 cannot be
  made; recording a spend of 40 leaves 60; after it 50 can still be spent and 70 cannot; a
  scope that was never created has no budget.
\<close>

theorem ledger_example:
  "canSpend ''global'' 150 (snd (setBudget ''global'' 100 Map.empty)) = Failure ''Budget exceeded'' \<and>
   fst (recordSpend ''global'' 40 (snd (setBudget ''global'' 100 Map.empty)))
     = SuccessRemaining 60 \<and>
   canSpend ''global'' 50
     (snd (recordSpend ''global'' 40 (snd (setBudget ''global'' 100 Map.empty)))) = Success \<and>
   canSpend ''global'' 70
     (snd (recordSpend ''global'' 40 (snd (setBudget ''global'' 100 Map.empty))))
     = Failure ''Budget exceeded'' \<and>
   canSpend ''other'' 0 (snd (setBudget ''global'' 100 Map.empty)) = Failure ''No budget found''"
  by (simp add: ledger_defs Let_def)

section \<open>Event bus: properties\<close>

lemma emit_returns_createEvent:
  "emit em ty pl src pc uuid now s = (Inr ev, s') \<Longrightarrow>
   ev = createEvent ty pl (case src of None \<Rightarrow> ''system'' | Some x \<Rightarrow> x) pc uuid now"
  by (auto simp: emit_def Let_def split: prod.splits option.splits)

text \<open>
  Claim C6: an event emitted with no parent context has \<open>traceId = spanId = id\<close>; and when
  an emitted event \<open>A\<close> (whose id, a UUID, is not the empty string) hands its trace to the
  emission of \<open>B\<close>, then \<open>B\<close> has the trace id of \<open>A\<close> and \<open>A\<close>'s id as its parent id.
\<close>

theorem trace_propagation:
  "(emit em ty pl src None uuid now s = (Inr E, s') \<longrightarrow>
      traceId (trace E) = spanId (trace E) \<and> spanId (trace E) = Some (event_id E)) \<and>
   (emit emA tyA plA srcA pcA uuidA nowA sA = (Inr A, sA') \<and> uuidA \<noteq> [] \<and>
    emit emB tyB plB srcB (Some (trace A)) uuidB nowB sB = (Inr B, sB') \<longrightarrow>
      traceId (trace B) = traceId (trace A) \<and> parentId (trace B) = Some (event_id A))"
proof (intro conjI impI)
  assume "emit em ty pl src None uuid now s = (Inr E, s')"
  then have E: "E = createEvent ty pl (case src of None \<Rightarrow> ''system'' | Some x \<Rightarrow> x)
                      None uuid now"
    by (rule emit_returns_createEvent)
  show "traceId (trace E) = spanId (trace E)"
    by (simp add: E createEvent_def empty_context_def or_string_def)
  show "spanId (trace E) = Some (event_id E)"
    by (simp add: E createEvent_def)
next
  assume h: "emit emA tyA plA srcA pcA uuidA nowA sA = (Inr A, sA') \<and> uuidA \<noteq> [] \<and>
    emit emB tyB plB srcB (Some (trace A)) uuidB nowB sB = (Inr B, sB')"
  have A: "A = createEvent tyA plA (case srcA of None \<Rightarrow> ''system'' | Some x \<Rightarrow> x)
                 pcA uuidA nowA"
    using h by (auto dest: emit_returns_createEvent)
  have B: "B = createEvent tyB plB (case srcB of None \<Rightarrow> ''system'' | Some x \<Rightarrow> x)
                 (Some (trace A)) uuidB nowB"
    using h by (auto dest: emit_returns_createEvent)
  have ne: "uuidA \<noteq> []" using h by simp
  show "traceId (trace B) = traceId (trace A)"
    using ne by (simp add: A B createEvent_def Let_def or_string_def split: option.splits)
  show "parentId (trace B) = Some (event_id A)"
    by (simp add: A B createEvent_def Let_def)
qed

text \<open>
  C6 on the run of the bus's integration test: \<open>test:event\<close> is emitted with no parent,
  \<open>child:event\<close> with the trace of the first.
\<close>

theorem trace_propagation_witness:
  "emit ([] :: (unit, unit) emitter) ''test:event'' () (Some ''test-suite'') None
        ''span-a'' 1 ((), [])
     = (Inr (createEvent ''test:event'' () ''test-suite'' None ''span-a'' 1),
        ((), [Log Debug ''[Event] test:event | Trace: span-a''])) \<and>
   ''span-a'' \<noteq> [] \<and>
   emit ([] :: (unit, unit) emitter) ''child:event'' () (Some ''child-source'')
        (Some (trace (createEvent ''test:event'' () ''test-suite'' None ''span-a'' 1)))
        ''span-b'' 2 ((), [])
     = (Inr (createEvent ''child:event'' () ''child-source''
               (Some (trace (createEvent ''test:event'' () ''test-suite'' None ''span-a'' 1)))
               ''span-b'' 2),
        ((), [Log Debug ''[Event] child:event | Trace: span-a''])) \<and>
   traceId (trace (createEvent ''test:event'' () ''test-suite'' None ''span-a'' 1))
     = spanId (trace (createEvent ''test:event'' () ''test-suite'' None ''span-a'' 1)) \<and>
   traceId (trace (createEvent ''child:event'' () ''child-source''
               (Some (trace (createEvent ''test:event'' () ''test-suite'' None ''span-a'' 1)))
               ''span-b'' 2))
     = traceId (trace (createEvent ''test:event'' () ''test-suite'' None ''span-a'' 1)) \<and>
   parentId (trace (createEvent ''child:event'' () ''child-source''
               (Some (trace (createEvent ''test:event'' () ''test-suite'' None ''span-a'' 1)))
               ''span-b'' 2))
     = Some (event_id (createEvent ''test:event'' () ''test-suite'' None ''span-a'' 1))"
proof -
  let ?A = "createEvent ''test:event'' () ''test-suite'' None ''span-a'' 1"
  let ?B = "createEvent ''child:event'' () ''child-source'' (Some (trace ?A)) ''span-b'' 2"
  have a: "emit ([] :: (unit, unit) emitter) ''test:event'' () (Some ''test-suite'') None
             ''span-a'' 1 ((), [])
           = (Inr ?A, ((), [Log Debug ''[Event] test:event | Trace: span-a'']))"
    by (simp add: emit_def emitter_emit_def createEvent_def Let_def or_string_def
        empty_context_def)
  have b: "emit ([] :: (unit, unit) emitter) ''child:event'' () (Some ''child-source'')
             (Some (trace ?A)) ''span-b'' 2 ((), [])
           = (Inr ?B, ((), [Log Debug ''[Event] child:event | Trace: span-a'']))"
    by (simp add: emit_def emitter_emit_def createEvent_def Let_def or_string_def
        empty_context_def)
  have ne: "''span-a'' \<noteq> []" by simp
  note t = trace_propagation
  have c: "traceId (trace ?A) = spanId (trace ?A)"
    using t [THEN conjunct1, rule_format, OF a] by simp
  have d: "traceId (trace ?B) = traceId (trace ?A) \<and> parentId (trace ?B) = Some (event_id ?A)"
    using t [THEN conjunct2, rule_format, OF conjI [OF a conjI [OF ne b]]] .
  show ?thesis using a b ne c d by blast
qed

lemma wrappedHandler_never_throws: "snd (wrappedHandler ty h ev s) = None"
  by (cases s) (simp add: wrappedHandler_def split: prod.splits option.splits)

lemma call_listeners_wrapped:
  "\<forall>l \<in> set ls. \<exists>ty h. l = wrappedHandler ty h \<Longrightarrow> snd (call_listeners ls ev s) = None"
proof (induction ls arbitrary: s)
  case Nil
  then show ?case by simp
next
  case (Cons l ls)
  then obtain ty h where l: "l = wrappedHandler ty h" by auto
  have "snd (l ev s) = None" unfolding l by (rule wrappedHandler_never_throws)
  then show ?case using Cons by (auto split: prod.splits option.splits)
qed

lemma on_keeps_wrapped: "allWrapped em \<Longrightarrow> allWrapped (on ty h em)"
  by (auto simp: allWrapped_def on_def)

text \<open>
  Subscribers registered through \<open>on\<close> are isolated: on a bus all of whose listeners were
  registered through \<open>on\<close>, whatever the handlers throw and however many there are,
  \<open>emit\<close> returns the event it created.
\<close>

theorem emit_wrapped_returns:
  assumes "allWrapped em"
  shows "fst (emit em ty pl src pc uuid now s)
         = Inr (createEvent ty pl (case src of None \<Rightarrow> ''system'' | Some x \<Rightarrow> x) pc uuid now)"
proof -
  have w: "\<And>name. \<forall>l \<in> set (map snd (filter (\<lambda>(n, l). n = name) em)).
              \<exists>ty h. l = wrappedHandler ty h"
    using assms by (auto simp: allWrapped_def)
  have n: "\<And>name ev s. snd (emitter_emit em name ev s) = None"
    unfolding emitter_emit_def by (rule call_listeners_wrapped) (rule w)
  define ev where
    "ev = createEvent ty pl (case src of None \<Rightarrow> ''system'' | Some x \<Rightarrow> x) pc uuid now"
  define s0 where
    "s0 = (fst s, snd s @ [Log Debug (''[Event] '' @ ty @ '' | Trace: ''
                             @ (case traceId (trace ev) of
                                  None \<Rightarrow> ''undefined'' | Some x \<Rightarrow> x))])"
  obtain s1 where e1: "emitter_emit em ty ev s0 = (s1, None)"
    using n [of ty ev s0] by (metis prod.collapse)
  obtain s2 where e2: "emitter_emit em ''*'' ev s1 = (s2, None)"
    using n [of "''*''" ev s1] by (metis prod.collapse)
  show ?thesis
    using e1 e2 unfolding emit_def ev_def [symmetric] Let_def s0_def [symmetric] by simp
qed

text \<open>
  Two \<open>on\<close> subscribers, the first of which throws: the exception is logged, the second
  handler still runs (the counter goes to 1) and \<open>emit\<close> returns the event.
\<close>

theorem emit_wrapped_returns_witness:
  "allWrapped (on ''incr'' counting_handler (on ''incr'' (throwing_handler ''bang'') []
                 :: (unit, nat) emitter)) \<and>
   emit (on ''incr'' counting_handler (on ''incr'' (throwing_handler ''bang'') []))
        ''incr'' () None None ''span-1'' 0 (0, [])
   = (Inr (createEvent ''incr'' () ''system'' None ''span-1'' 0),
      (1, [Log Debug ''[Event] incr | Trace: span-1'', Log Error ''Error in handler for incr'']))"
proof -
  let ?em = "on ''incr'' counting_handler (on ''incr'' (throwing_handler ''bang'') []
               :: (unit, nat) emitter)"
  have w: "allWrapped ?em"
    by (intro on_keeps_wrapped) (simp add: allWrapped_def)
  have a: "fst (emit ?em ''incr'' () None None ''span-1'' 0 (0, []))
           = Inr (createEvent ''incr'' () ''system'' None ''span-1'' 0)"
    using emit_wrapped_returns [OF w, of "''incr''" "()" None None "''span-1''" 0 "(0, [])"]
    by simp
  have b: "snd (emit ?em ''incr'' () None None ''span-1'' 0 (0, []))
           = (1, [Log Debug ''[Event] incr | Trace: span-1'',
                  Log Error ''Error in handler for incr''])"
    by (simp add: emit_def emitter_emit_def createEvent_def Let_def or_string_def
        empty_context_def on_def wrappedHandler_def throwing_handler_def counting_handler_def)
  show ?thesis using w a b by (simp add: prod_eq_iff)
qed

text \<open>
  Claim C7 asks the same isolation of the catch-all subscribers, and there the code does
  not give it: \<open>onAny\<close> hands the handler to the emitter unwrapped. On a bus with one \<open>on\<close>
  subscriber that throws and two catch-all subscribers, the first of which throws, the
  exception of the \<open>on\<close> subscriber is caught and logged, that of the catch-all subscriber
  reaches the caller of \<open>emit\<close> (no event is returned), nothing is logged for it, and the
  second catch-all subscriber is never called: the counter stays at 0.
\<close>

theorem onAny_handler_exception_escapes:
  "emit (onAny counting_handler
          (onAny (throwing_handler ''boom'') (on ''incr'' (throwing_handler ''bang'') [])))
        ''incr'' () None None ''span-1'' 0 (0, [])
   = (Inl ''boom'',
      (0, [Log Debug ''[Event] incr | Trace: span-1'', Log Error ''Error in handler for incr'']))"
  by (simp add: emit_def emitter_emit_def createEvent_def Let_def or_string_def empty_context_def
      on_def onAny_def wrappedHandler_def rawHandler_def throwing_handler_def
      counting_handler_def)

section \<open>Job orchestrator: properties\<close>

text \<open>
  Claim C5: \<open>startJob\<close> succeeds only from \<open>created\<close> or \<open>paused\<close>; from any other status
  it answers "Invalid state transition from ..." and the state is the one it found; when the
  budget check fails it answers with the very result of the check and the state is the one
  it found; \<open>pauseJob\<close> on a job that is not running answers with a failure and the state is
  the one it found. In general a \<open>startJob\<close> or \<open>pauseJob\<close> that does not succeed changes
  nothing, neither the stored jobs nor the emitted events.
\<close>

theorem failed_transition_keeps_job:
  "(fst (startJob bc now jid st) = Success \<longrightarrow>
      (\<exists>job. jobs st jid = Some job \<and> (status job = CREATED \<or> status job = PAUSED))) \<and>
   (\<forall>job. jobs st jid = Some job \<and> status job \<noteq> CREATED \<and> status job \<noteq> PAUSED \<longrightarrow>
      startJob bc now jid st
        = (Failure (''Invalid state transition from '' @ status_string (status job)), st)) \<and>
   (\<forall>job. jobs st jid = Some job \<and> (status job = CREATED \<or> status job = PAUSED) \<and>
          is_failure (bc jid) \<longrightarrow>
      startJob bc now jid st = (bc jid, st)) \<and>
   (\<forall>job. jobs st jid = Some job \<and> status job \<noteq> RUNNING \<longrightarrow>
      pauseJob jid st = (Failure ''Only running jobs can be paused'', st)) \<and>
   (fst (startJob bc now jid st) \<noteq> Success \<longrightarrow> snd (startJob bc now jid st) = st) \<and>
   (fst (pauseJob jid st) \<noteq> Success \<longrightarrow> snd (pauseJob jid st) = st)"
  by (auto simp: startJob_def pauseJob_def getJob_def Let_def split: option.splits)

text \<open>
  C5 on a fresh job: started against a ledger that has no budget for it, the ledger's
  "No budget found" comes back and the job stays \<open>created\<close>; it cannot be paused; once
  running it cannot be started again.
\<close>

theorem failed_transition_keeps_job_witness:
  "map_option status
     (jobs (snd (createJob None None ''test-job-id'' 0
                  (\<lparr>jobs = Map.empty, events = []\<rparr> :: (unit, unit) orchestrator_state)))
        ''test-job-id'') = Some CREATED \<and>
   is_failure (canSpend ''test-job-id'' 0 Map.empty) \<and>
   startJob (\<lambda>jobId. canSpend jobId 0 Map.empty) 5 ''test-job-id''
       (snd (createJob None None ''test-job-id'' 0
              (\<lparr>jobs = Map.empty, events = []\<rparr> :: (unit, unit) orchestrator_state)))
     = (Failure ''No budget found'',
        snd (createJob None None ''test-job-id'' 0
              (\<lparr>jobs = Map.empty, events = []\<rparr> :: (unit, unit) orchestrator_state))) \<and>
   pauseJob ''test-job-id''
       (snd (createJob None None ''test-job-id'' 0
              (\<lparr>jobs = Map.empty, events = []\<rparr> :: (unit, unit) orchestrator_state)))
     = (Failure ''Only running jobs can be paused'',
        snd (createJob None None ''test-job-id'' 0
              (\<lparr>jobs = Map.empty, events = []\<rparr> :: (unit, unit) orchestrator_state))) \<and>
   map_option status
     (jobs (snd (startJob (\<lambda>jobId. Success) 5 ''test-job-id''
                  (snd (createJob None None ''test-job-id'' 0
                    (\<lparr>jobs = Map.empty, events = []\<rparr> :: (unit, unit) orchestrator_state)))))
        ''test-job-id'') = Some RUNNING \<and>
   startJob (\<lambda>jobId. Success) 9 ''test-job-id''
       (snd (startJob (\<lambda>jobId. Success) 5 ''test-job-id''
              (snd (createJob None None ''test-job-id'' 0
                (\<lparr>jobs = Map.empty, events = []\<rparr> :: (unit, unit) orchestrator_state)))))
     = (Failure ''Invalid state transition from running'',
        snd (startJob (\<lambda>jobId. Success) 5 ''test-job-id''
              (snd (createJob None None ''test-job-id'' 0
                (\<lparr>jobs = Map.empty, events = []\<rparr> :: (unit, unit) orchestrator_state)))))"
proof -
  let ?e = "\<lparr>jobs = Map.empty, events = []\<rparr> :: (unit, unit) orchestrator_state"
  let ?st0 = "snd (createJob None None ''test-job-id'' 0 ?e)"
  let ?st1 = "snd (startJob (\<lambda>jobId. Success) 5 ''test-job-id'' ?st0)"
  let ?job0 = "\<lparr>job_id = ''test-job-id'', status = CREATED, job_context = Map.empty,
                 permissions = default_permissions, history = [],
                 timing = \<lparr>created = 0, started = None, completed = None\<rparr>\<rparr>
               :: (unit, unit) Job"
  let ?job1 = "?job0\<lparr>status := RUNNING,
                     timing := \<lparr>created = 0, started = Some 5, completed = None\<rparr>\<rparr>"
  have j0: "jobs ?st0 ''test-job-id'' = Some ?job0"
    by (simp add: createJob_def saveJob_def Let_def)
  have j1: "jobs ?st1 ''test-job-id'' = Some ?job1"
    by (simp add: startJob_def getJob_def j0 is_failure_def Let_def saveJob_def bus_emit_def
        set_started_def)
  have f: "is_failure (canSpend ''test-job-id'' 0 Map.empty)"
    by (simp add: is_failure_def canSpend_def getBudget_def)
  have c: "canSpend ''test-job-id'' 0 Map.empty = Failure ''No budget found''"
    by (simp add: canSpend_def getBudget_def)
  note t0 = failed_transition_keeps_job
             [of "\<lambda>jobId. canSpend jobId 0 Map.empty" 5 "''test-job-id''" ?st0]
  note t1 = failed_transition_keeps_job [of "\<lambda>jobId. Success" 9 "''test-job-id''" ?st1]
  have a: "startJob (\<lambda>jobId. canSpend jobId 0 Map.empty) 5 ''test-job-id'' ?st0
           = (Failure ''No budget found'', ?st0)"
    using t0 [THEN conjunct2, THEN conjunct2, THEN conjunct1, rule_format, of ?job0] j0 f c
    by simp
  have b: "pauseJob ''test-job-id'' ?st0 = (Failure ''Only running jobs can be paused'', ?st0)"
    using t0 [THEN conjunct2, THEN conjunct2, THEN conjunct2, THEN conjunct1, rule_format,
              of ?job0] j0
    by simp
  have d: "startJob (\<lambda>jobId. Success) 9 ''test-job-id'' ?st1
           = (Failure ''Invalid state transition from running'', ?st1)"
    using t1 [THEN conjunct2, THEN conjunct1, rule_format, of ?job1] j1
    by simp
  show ?thesis using j0 j1 f a b d by simp
qed

text \<open>
  Claim C10: the id \<open>createJob\<close> returns names a stored job with status \<open>created\<close>, an
  empty history and the given initial context (the empty mapping when none is given);
  with no permissions given, the stored permissions are \<open>allowTools = false\<close>,
  \<open>requireApproval = true\<close>, \<open>maxSteps = 10\<close>.
\<close>

theorem createJob_stores_created_job:
  "map_option status
     (jobs (snd (createJob ic perms gid now st)) (fst (createJob ic perms gid now st)))
     = Some CREATED \<and>
   map_option history
     (jobs (snd (createJob ic perms gid now st)) (fst (createJob ic perms gid now st)))
     = Some [] \<and>
   map_option job_context
     (jobs (snd (createJob ic perms gid now st)) (fst (createJob ic perms gid now st)))
     = Some (case ic of None \<Rightarrow> Map.empty | Some c \<Rightarrow> c) \<and>
   map_option permissions
     (jobs (snd (createJob ic None gid now st)) (fst (createJob ic None gid now st)))
     = Some \<lparr>allowTools = False, requireApproval = True, maxSteps = 10\<rparr>"
  by (simp add: createJob_def saveJob_def Let_def default_permissions_def)

section \<open>Optimization pipeline: properties\<close>

lemma promoteToActive_maps:
  "shadowFunctions st t = Some r \<Longrightarrow> candidates st t = Some c \<Longrightarrow>
   activeFunctions (promoteToActive t st) t = Some r \<and>
   shadowFunctions (promoteToActive t st) t = None \<and>
   candidates (promoteToActive t st) t = Some (c\<lparr>cand_status := Optimized\<rparr>)"
  by (simp add: promoteToActive_def logged_def Let_def)

lemma runShadowTest_threw:
  "implementation r i = Inl err \<Longrightarrow>
   shadowFunctions (runShadowTest stringify t r i expected st) t
     = Some (r\<lparr>confidenceScore := confidenceScore r * (4 / 5)\<rparr>) \<and>
   activeFunctions (runShadowTest stringify t r i expected st) = activeFunctions st \<and>
   candidates (runShadowTest stringify t r i expected st) = candidates st"
  by (simp add: runShadowTest_def logged_def Let_def)

lemma runShadowTest_returned:
  assumes "candidates st t = Some c" and Inr: "implementation r i = Inr out"
  shows "(99 / 100 < nudged (confidenceScore r) (stringify out = stringify expected) \<longrightarrow>
           activeFunctions (runShadowTest stringify t r i expected st) t
             = Some (r\<lparr>confidenceScore :=
                         nudged (confidenceScore r) (stringify out = stringify expected)\<rparr>) \<and>
           shadowFunctions (runShadowTest stringify t r i expected st) t = None \<and>
           candidates (runShadowTest stringify t r i expected st) t
             = Some (c\<lparr>cand_status := Optimized\<rparr>)) \<and>
         (nudged (confidenceScore r) (stringify out = stringify expected) \<le> 99 / 100 \<longrightarrow>
           shadowFunctions (runShadowTest stringify t r i expected st) t
             = Some (r\<lparr>confidenceScore :=
                         nudged (confidenceScore r) (stringify out = stringify expected)\<rparr>) \<and>
           activeFunctions (runShadowTest stringify t r i expected st) = activeFunctions st \<and>
           candidates (runShadowTest stringify t r i expected st) = candidates st)"
proof -
  define new where "new = nudged (confidenceScore r) (stringify out = stringify expected)"
  have sc: "or_number (confidenceScore r) 0 * (1 - 1 / 20)
              + (if stringify out = stringify expected then 1 else 0) * (1 / 20) = new"
    by (simp add: new_def nudged_def or_number_def field_simps)
  define st2 where
    "st2 = logged (Log Debug (''Shadow test for '' @ quoted t @ '': ''
                     @ (if stringify out = stringify expected then ''MATCH'' else ''MISMATCH'')))
             (st\<lparr>shadowFunctions := (shadowFunctions st)(t \<mapsto> r\<lparr>confidenceScore := new\<rparr>)\<rparr>)"
  have run: "runShadowTest stringify t r i expected st
             = (if new > 99 / 100 then promoteToActive t st2 else st2)"
    unfolding runShadowTest_def Inr st2_def Let_def sum.case sc by simp
  have s2: "shadowFunctions st2 t = Some (r\<lparr>confidenceScore := new\<rparr>)"
           "candidates st2 = candidates st" "activeFunctions st2 = activeFunctions st"
    by (simp_all add: st2_def logged_def)
  have c2: "candidates st2 t = Some c" using assms(1) s2 by simp
  show ?thesis
    unfolding new_def [symmetric]
    using promoteToActive_maps [OF s2(1) c2] s2 by (simp add: run)
qed

lemma handleJobCompleted_shadow:
  fixes st :: "('i, 'o) pipeline"
  assumes "p_taskType pl = Some t" "t \<noteq> []" "shadowFunctions st t = Some r"
    and P: "\<And>(st3 :: ('i, 'o) pipeline) c. candidates st3 t = Some c \<Longrightarrow> activeFunctions st3 = activeFunctions st \<Longrightarrow>
             P (runShadowTest stringify t r (p_input pl) (p_output pl) st3)"
  shows "P (handleJobCompleted stringify pl st)"
  using assms(1,2,3)
  by (auto simp: handleJobCompleted_def Let_def logged_def intro!: P)

text \<open>
  Claim C3: let a completion event carry a (non-empty) task type for which a shadow
  function \<open>r\<close> is registered. If the shadow call throws, the score is multiplied by
  \<open>4/5\<close> and the record stays a shadow. If it returns, the score is nudged toward 1 (its
  output has the same \<^verbatim>\<open>JSON.stringify\<close> text as the real output) or toward 0 (it has not)
  by the rate \<open>1/20\<close>; when the new score exceeds \<open>99/100\<close> the record, with the new score,
  is in the active map, the shadow entry is gone and the candidate's status is
  \<open>optimized\<close>; otherwise the record stays a shadow and the active map is unchanged. For a
  score of at most 1, no shadow record above the threshold is left behind. The penalty for
  an exception is harsher than a mismatch for every positive score. A shadow at \<open>0.995\<close> is
  promoted by one matching event, with score \<open>0.99525\<close>.
\<close>

theorem shadow_test_updates_confidence:
  fixes st :: "('a, 'b) pipeline"
  shows
  "p_taskType pl = Some t \<and> t \<noteq> [] \<and> shadowFunctions st t = Some r \<longrightarrow>
     (\<forall>err. implementation r (p_input pl) = Inl err \<longrightarrow>
        shadowFunctions (handleJobCompleted stringify pl st) t
          = Some (r\<lparr>confidenceScore := confidenceScore r * (4 / 5)\<rparr>) \<and>
        activeFunctions (handleJobCompleted stringify pl st) = activeFunctions st) \<and>
     (\<forall>out. implementation r (p_input pl) = Inr out \<longrightarrow>
        (99 / 100 < nudged (confidenceScore r) (stringify out = stringify (p_output pl)) \<longrightarrow>
           activeFunctions (handleJobCompleted stringify pl st) t
             = Some (r\<lparr>confidenceScore :=
                         nudged (confidenceScore r) (stringify out = stringify (p_output pl))\<rparr>) \<and>
           shadowFunctions (handleJobCompleted stringify pl st) t = None \<and>
           map_option cand_status (candidates (handleJobCompleted stringify pl st) t)
             = Some Optimized) \<and>
        (nudged (confidenceScore r) (stringify out = stringify (p_output pl)) \<le> 99 / 100 \<longrightarrow>
           shadowFunctions (handleJobCompleted stringify pl st) t
             = Some (r\<lparr>confidenceScore :=
                         nudged (confidenceScore r) (stringify out = stringify (p_output pl))\<rparr>) \<and>
           activeFunctions (handleJobCompleted stringify pl st) = activeFunctions st)) \<and>
     (confidenceScore r \<le> 1 \<longrightarrow>
        (\<forall>r'. shadowFunctions (handleJobCompleted stringify pl st) t = Some r' \<longrightarrow>
              confidenceScore r' \<le> 99 / 100)) \<and>
     (0 < confidenceScore r \<longrightarrow>
        confidenceScore r * (4 / 5) < nudged (confidenceScore r) False \<and>
        nudged (confidenceScore r) False < confidenceScore r) \<and>
     (confidenceScore r < 1 \<longrightarrow>
        confidenceScore r < nudged (confidenceScore r) True \<and>
        nudged (confidenceScore r) True < 1) \<and>
     (\<forall>out. confidenceScore r = 995 / 1000 \<and> implementation r (p_input pl) = Inr out \<and>
            stringify out = stringify (p_output pl) \<longrightarrow>
        activeFunctions (handleJobCompleted stringify pl st) t
          = Some (r\<lparr>confidenceScore := 99525 / 100000\<rparr>) \<and>
        shadowFunctions (handleJobCompleted stringify pl st) t = None \<and>
        map_option cand_status (candidates (handleJobCompleted stringify pl st) t)
          = Some Optimized)"
proof (intro impI)
  assume h: "p_taskType pl = Some t \<and> t \<noteq> [] \<and> shadowFunctions st t = Some r"
  then have h1: "p_taskType pl = Some t" and h2: "t \<noteq> []" and h3: "shadowFunctions st t = Some r"
    by simp_all
  let ?st' = "handleJobCompleted stringify pl st"
  let ?c = "confidenceScore r"
  have threw: "\<And>err. implementation r (p_input pl) = Inl err \<Longrightarrow>
        shadowFunctions ?st' t = Some (r\<lparr>confidenceScore := ?c * (4 / 5)\<rparr>) \<and>
        activeFunctions ?st' = activeFunctions st"
  proof -
    fix err assume e: "implementation r (p_input pl) = Inl err"
    show "shadowFunctions ?st' t = Some (r\<lparr>confidenceScore := ?c * (4 / 5)\<rparr>) \<and>
        activeFunctions ?st' = activeFunctions st"
      by (rule handleJobCompleted_shadow [OF h1 h2 h3])
         (simp add: runShadowTest_threw [OF e])
  qed
  have returned: "\<And>out. implementation r (p_input pl) = Inr out \<Longrightarrow>
        (99 / 100 < nudged ?c (stringify out = stringify (p_output pl)) \<longrightarrow>
           activeFunctions ?st' t
             = Some (r\<lparr>confidenceScore := nudged ?c (stringify out = stringify (p_output pl))\<rparr>) \<and>
           shadowFunctions ?st' t = None \<and>
           map_option cand_status (candidates ?st' t) = Some Optimized) \<and>
        (nudged ?c (stringify out = stringify (p_output pl)) \<le> 99 / 100 \<longrightarrow>
           shadowFunctions ?st' t
             = Some (r\<lparr>confidenceScore := nudged ?c (stringify out = stringify (p_output pl))\<rparr>) \<and>
           activeFunctions ?st' = activeFunctions st)"
  proof -
    fix out assume e: "implementation r (p_input pl) = Inr out"
    show "(99 / 100 < nudged ?c (stringify out = stringify (p_output pl)) \<longrightarrow>
           activeFunctions ?st' t
             = Some (r\<lparr>confidenceScore := nudged ?c (stringify out = stringify (p_output pl))\<rparr>) \<and>
           shadowFunctions ?st' t = None \<and>
           map_option cand_status (candidates ?st' t) = Some Optimized) \<and>
        (nudged ?c (stringify out = stringify (p_output pl)) \<le> 99 / 100 \<longrightarrow>
           shadowFunctions ?st' t
             = Some (r\<lparr>confidenceScore := nudged ?c (stringify out = stringify (p_output pl))\<rparr>) \<and>
           activeFunctions ?st' = activeFunctions st)"
    proof (rule handleJobCompleted_shadow [OF h1 h2 h3])
      fix st3 :: "('a, 'b) pipeline" and c
      assume c: "candidates st3 t = Some c" and a: "activeFunctions st3 = activeFunctions st"
      show "(99 / 100 < nudged ?c (stringify out = stringify (p_output pl)) \<longrightarrow>
           activeFunctions (runShadowTest stringify t r (p_input pl) (p_output pl) st3) t
             = Some (r\<lparr>confidenceScore := nudged ?c (stringify out = stringify (p_output pl))\<rparr>) \<and>
           shadowFunctions (runShadowTest stringify t r (p_input pl) (p_output pl) st3) t = None \<and>
           map_option cand_status (candidates (runShadowTest stringify t r (p_input pl) (p_output pl) st3) t) = Some Optimized) \<and>
        (nudged ?c (stringify out = stringify (p_output pl)) \<le> 99 / 100 \<longrightarrow>
           shadowFunctions (runShadowTest stringify t r (p_input pl) (p_output pl) st3) t
             = Some (r\<lparr>confidenceScore := nudged ?c (stringify out = stringify (p_output pl))\<rparr>) \<and>
           activeFunctions (runShadowTest stringify t r (p_input pl) (p_output pl) st3) = activeFunctions st)"
        using runShadowTest_returned [OF c e, of stringify "p_output pl"] a by simp
    qed
  qed
  have bound: "?c \<le> 1 \<Longrightarrow> shadowFunctions ?st' t = Some r' \<Longrightarrow> confidenceScore r' \<le> 99 / 100"
    for r'
  proof (cases "implementation r (p_input pl)")
    case (Inl err)
    assume "?c \<le> 1" "shadowFunctions ?st' t = Some r'"
    then show ?thesis using threw [OF Inl] by auto
  next
    case (Inr out)
    assume "?c \<le> 1" "shadowFunctions ?st' t = Some r'"
    then show ?thesis using returned [OF Inr]
      by (cases "99 / 100 < nudged ?c (stringify out = stringify (p_output pl))") auto
  qed
  have harsher: "0 < ?c \<Longrightarrow> ?c * (4 / 5) < nudged ?c False \<and> nudged ?c False < ?c"
    by (simp add: nudged_def)
  have toward1: "?c < 1 \<Longrightarrow> ?c < nudged ?c True \<and> nudged ?c True < 1"
    by (simp add: nudged_def field_simps)
  have example: "?c = 995 / 1000 \<Longrightarrow> implementation r (p_input pl) = Inr out \<Longrightarrow>
            stringify out = stringify (p_output pl) \<Longrightarrow>
        activeFunctions ?st' t = Some (r\<lparr>confidenceScore := 99525 / 100000\<rparr>) \<and>
        shadowFunctions ?st' t = None \<and>
        map_option cand_status (candidates ?st' t) = Some Optimized" for out
  proof -
    assume c: "?c = 995 / 1000" and e: "implementation r (p_input pl) = Inr out"
      and m: "stringify out = stringify (p_output pl)"
    have n: "nudged ?c (stringify out = stringify (p_output pl)) = 99525 / 100000"
      by (simp add: nudged_def c m)
    show ?thesis using returned [OF e] unfolding n by simp
  qed
  show "(\<forall>err. implementation r (p_input pl) = Inl err \<longrightarrow>
        shadowFunctions ?st' t = Some (r\<lparr>confidenceScore := ?c * (4 / 5)\<rparr>) \<and>
        activeFunctions ?st' = activeFunctions st) \<and>
     (\<forall>out. implementation r (p_input pl) = Inr out \<longrightarrow>
        (99 / 100 < nudged ?c (stringify out = stringify (p_output pl)) \<longrightarrow>
           activeFunctions ?st' t
             = Some (r\<lparr>confidenceScore := nudged ?c (stringify out = stringify (p_output pl))\<rparr>) \<and>
           shadowFunctions ?st' t = None \<and>
           map_option cand_status (candidates ?st' t) = Some Optimized) \<and>
        (nudged ?c (stringify out = stringify (p_output pl)) \<le> 99 / 100 \<longrightarrow>
           shadowFunctions ?st' t
             = Some (r\<lparr>confidenceScore := nudged ?c (stringify out = stringify (p_output pl))\<rparr>) \<and>
           activeFunctions ?st' = activeFunctions st)) \<and>
     (?c \<le> 1 \<longrightarrow> (\<forall>r'. shadowFunctions ?st' t = Some r' \<longrightarrow> confidenceScore r' \<le> 99 / 100)) \<and>
     (0 < ?c \<longrightarrow> ?c * (4 / 5) < nudged ?c False \<and> nudged ?c False < ?c) \<and>
     (?c < 1 \<longrightarrow> ?c < nudged ?c True \<and> nudged ?c True < 1) \<and>
     (\<forall>out. ?c = 995 / 1000 \<and> implementation r (p_input pl) = Inr out \<and>
            stringify out = stringify (p_output pl) \<longrightarrow>
        activeFunctions ?st' t = Some (r\<lparr>confidenceScore := 99525 / 100000\<rparr>) \<and>
        shadowFunctions ?st' t = None \<and>
        map_option cand_status (candidates ?st' t) = Some Optimized)"
    using threw returned bound example harsher toward1 by blast
qed

text \<open>
  C3 on sample data: the echoing shadow at \<open>0.995\<close> is promoted by a matching event; at
  \<open>1/2\<close> a mismatch takes it to \<open>19/40\<close>; the throwing shadow goes from \<open>1/2\<close> to \<open>2/5\<close>.
\<close>

theorem shadow_test_updates_confidence_witness:
  "p_taskType (completion ''in'' ''in'') = Some ''log_summarizer'' \<and> ''log_summarizer'' \<noteq> [] \<and>
   shadowFunctions (shadow_pipeline (echo_function (995 / 1000))) ''log_summarizer''
     = Some (echo_function (995 / 1000)) \<and>
   implementation (echo_function (995 / 1000)) ''in'' = Inr ''in'' \<and>
   activeFunctions
     (handleJobCompleted id (completion ''in'' ''in'') (shadow_pipeline (echo_function (995 / 1000))))
     ''log_summarizer'' = Some (echo_function (99525 / 100000)) \<and>
   shadowFunctions
     (handleJobCompleted id (completion ''in'' ''in'') (shadow_pipeline (echo_function (995 / 1000))))
     ''log_summarizer'' = None \<and>
   map_option cand_status
     (candidates
       (handleJobCompleted id (completion ''in'' ''in'')
          (shadow_pipeline (echo_function (995 / 1000))))
       ''log_summarizer'') = Some Optimized \<and>
   shadowFunctions
     (handleJobCompleted id (completion ''in'' ''other'') (shadow_pipeline (echo_function (1 / 2))))
     ''log_summarizer'' = Some (echo_function (19 / 40)) \<and>
   implementation (failing_function (1 / 2)) ''in'' = Inl ''boom'' \<and>
   shadowFunctions
     (handleJobCompleted id (completion ''in'' ''in'') (shadow_pipeline (failing_function (1 / 2))))
     ''log_summarizer'' = Some (failing_function (2 / 5))"
proof -
  let ?t = "''log_summarizer''"
  have p: "p_taskType (completion i out) = Some ?t" for i out by (simp add: completion_def)
  have i: "p_input (completion i out) = i" "p_output (completion i out) = out" for i out
    by (simp_all add: completion_def)
  have ne: "?t \<noteq> []" by simp
  have s: "shadowFunctions (shadow_pipeline f) ?t = Some f" for f
    by (simp add: shadow_pipeline_def)
  have e: "implementation (echo_function c) x = Inr x" for c x
    by (simp add: echo_function_def)
  have f: "implementation (failing_function c) x = Inl ''boom''" for c x
    by (simp add: failing_function_def)
  note t1 = shadow_test_updates_confidence
              [of "completion ''in'' ''in''" ?t "shadow_pipeline (echo_function (995 / 1000))"
                  "echo_function (995 / 1000)" id, rule_format, OF conjI [OF p conjI [OF ne s]]]
  note t2 = shadow_test_updates_confidence
              [of "completion ''in'' ''other''" ?t "shadow_pipeline (echo_function (1 / 2))"
                  "echo_function (1 / 2)" id, rule_format, OF conjI [OF p conjI [OF ne s]]]
  note t3 = shadow_test_updates_confidence
              [of "completion ''in'' ''in''" ?t "shadow_pipeline (failing_function (1 / 2))"
                  "failing_function (1 / 2)" id, rule_format, OF conjI [OF p conjI [OF ne s]]]
  have a: "activeFunctions
     (handleJobCompleted id (completion ''in'' ''in'') (shadow_pipeline (echo_function (995 / 1000))))
     ?t = Some (echo_function (99525 / 100000)) \<and>
   shadowFunctions
     (handleJobCompleted id (completion ''in'' ''in'') (shadow_pipeline (echo_function (995 / 1000))))
     ?t = None \<and>
   map_option cand_status
     (candidates
       (handleJobCompleted id (completion ''in'' ''in'')
          (shadow_pipeline (echo_function (995 / 1000))))
       ?t) = Some Optimized"
    using t1 [THEN conjunct2, THEN conjunct2, THEN conjunct2, THEN conjunct2, THEN conjunct2,
              rule_format, of "''in''"]
    by (simp add: i e) (simp add: echo_function_def)
  have b: "shadowFunctions
     (handleJobCompleted id (completion ''in'' ''other'') (shadow_pipeline (echo_function (1 / 2))))
     ?t = Some (echo_function (19 / 40))"
    using t2 [THEN conjunct2, THEN conjunct1, rule_format, of "''in''", THEN conjunct2]
    by (simp add: i e nudged_def) (simp add: echo_function_def)
  have c: "shadowFunctions
     (handleJobCompleted id (completion ''in'' ''in'') (shadow_pipeline (failing_function (1 / 2))))
     ?t = Some (failing_function (2 / 5))"
    using t3 [THEN conjunct1, rule_format, of "''boom''"]
    by (simp add: i f) (simp add: failing_function_def echo_function_def)
  show ?thesis using p ne s e f a b c by simp
qed

section \<open>Model gateway: properties\<close>

lemmas gateway_defs =
  call_def deterministic_bypass_def provider_call_def queue_call_def call_failed_def
  validateCapabilities_def calculateCost_def bypass_response_def getOptimizedFunction_def
  enqueued_def CAPABILITY_TOOLS_def property_of_def Object_prototype_members_def
  conf_provider_def shown_def

lemmas sample_defs =
  test_models_def mock_queue_def test_gateway_def test_request_def active_pipeline_def
  registerFunction_def new_pipeline_def

text \<open>
  Claim C4: when the request carries a (non-empty) task type, a pipeline is injected and
  it holds an active function for that task type, then: if the substitute returns, the
  call answers with the substitute's output, tagged \<open>deterministic\<close>/\<open>internal\<close> with zero
  tokens and zero cost, and no provider queue is entered; if the substitute throws, the
  call answers what the provider path answers; and a provider queue is entered only if the
  substitute threw.
\<close>

theorem active_substitute_bypasses_provider:
  fixes gw :: "('m, 't, 'c, 'o) gateway"
  shows
  "req_taskType req = Some t \<and> t \<noteq> [] \<and> optimizationPipeline gw = Some p \<and>
   activeFunctions p t = Some r \<longrightarrow>
     (\<forall>out. implementation r (messages req) = Inr out \<longrightarrow>
        fst (call asString stringify gw req jobId latency)
          = CallSuccess
              \<lparr>content = (case asString out of Some s \<Rightarrow> s | None \<Rightarrow> stringify out),
               toolCalls = None\<rparr>
              \<lparr>meta_modelId = ''deterministic'', meta_provider = Some ''internal'',
               latencyMs = latency,
               meta_usage = \<lparr>usage_stats = Some \<lparr>promptTokens = 0, completionTokens = 0,
                                                  totalTokens = 0\<rparr>,
                             usage_cost = 0\<rparr>\<rparr> \<and>
        enqueued (snd (call asString stringify gw req jobId latency)) = []) \<and>
     (\<forall>err. implementation r (messages req) = Inl err \<longrightarrow>
        fst (call asString stringify gw req jobId latency) = fst (provider_call gw req jobId latency) \<and>
        enqueued (snd (call asString stringify gw req jobId latency))
          = enqueued (snd (provider_call gw req jobId latency))) \<and>
     (enqueued (snd (call asString stringify gw req jobId latency)) \<noteq> [] \<longrightarrow>
        (\<exists>err. implementation r (messages req) = Inl err))"
  by (cases "implementation r (messages req)")
     (auto simp: call_def deterministic_bypass_def getOptimizedFunction_def bypass_response_def
        enqueued_def split: prod.splits)

text \<open>
  C4 on sample data: with the echoing substitute active the request for \<open>gpt-4\<close> is
  answered internally and the queue of \<open>openai\<close> is not entered; with a throwing
  substitute it is.
\<close>

theorem active_substitute_bypasses_provider_witness:
  "req_taskType (test_request ''gpt-4'' None (Some ''log_summarizer'')) = Some ''log_summarizer'' \<and>
   ''log_summarizer'' \<noteq> [] \<and>
   optimizationPipeline (test_gateway usage_10_20 (Some (active_pipeline Inr)))
     = Some (active_pipeline Inr) \<and>
   map_option confidenceScore (activeFunctions (active_pipeline Inr) ''log_summarizer'') = Some 1 \<and>
   call Some id (test_gateway usage_10_20 (Some (active_pipeline Inr)))
        (test_request ''gpt-4'' None (Some ''log_summarizer'')) None 5
     = (CallSuccess \<lparr>content = ''hi'', toolCalls = None\<rparr>
          \<lparr>meta_modelId = ''deterministic'', meta_provider = Some ''internal'', latencyMs = 5,
           meta_usage = \<lparr>usage_stats = Some \<lparr>promptTokens = 0, completionTokens = 0,
                                              totalTokens = 0\<rparr>,
                         usage_cost = 0\<rparr>\<rparr>,
        [Logged (Log Info ''Using deterministic bypass for taskType: log_summarizer'')]) \<and>
   enqueued (snd (call Some id (test_gateway usage_10_20 (Some (active_pipeline Inr)))
                    (test_request ''gpt-4'' None (Some ''log_summarizer'')) None 5)) = [] \<and>
   enqueued (snd (call Some id
                    (test_gateway usage_10_20 (Some (active_pipeline (\<lambda>m. Inl ''boom''))))
                    (test_request ''gpt-4'' None (Some ''log_summarizer'')) None 5)) = [''openai'']"
proof -
  let ?req = "test_request ''gpt-4'' None (Some ''log_summarizer'')"
  let ?gw = "test_gateway usage_10_20 (Some (active_pipeline Inr))"
  let ?r = "\<lparr>fn_id = ''fn_0_log_summarizer'', fn_taskType = ''log_summarizer'', code = ''x => x'',
             testCases = [], confidenceScore = 1, implementation = Inr\<rparr>
            :: (string, string) DeterministicFunction"
  have a: "req_taskType ?req = Some ''log_summarizer''" by (simp add: test_request_def)
  have ne: "''log_summarizer'' \<noteq> []" by simp
  have p: "optimizationPipeline ?gw = Some (active_pipeline Inr)" by (simp add: test_gateway_def)
  have r: "activeFunctions (active_pipeline Inr) ''log_summarizer'' = Some ?r"
    by (simp add: active_pipeline_def registerFunction_def new_pipeline_def Let_def)
  have i: "implementation ?r (messages ?req) = Inr ''hi''" by (simp add: test_request_def)
  note t = active_substitute_bypasses_provider
             [of ?req "''log_summarizer''" ?gw "active_pipeline Inr" ?r Some id None 5, rule_format,
              OF conjI [OF a conjI [OF ne conjI [OF p r]]]]
  have b: "fst (call Some id ?gw ?req None 5)
           = CallSuccess \<lparr>content = ''hi'', toolCalls = None\<rparr>
          \<lparr>meta_modelId = ''deterministic'', meta_provider = Some ''internal'', latencyMs = 5,
           meta_usage = \<lparr>usage_stats = Some \<lparr>promptTokens = 0, completionTokens = 0,
                                              totalTokens = 0\<rparr>,
                         usage_cost = 0\<rparr>\<rparr>"
    and c: "enqueued (snd (call Some id ?gw ?req None 5)) = []"
    using t [THEN conjunct1, rule_format, OF i] by simp_all
  have d: "snd (call Some id ?gw ?req None 5)
           = [Logged (Log Info ''Using deterministic bypass for taskType: log_summarizer'')]"
    by (simp add: gateway_defs sample_defs Let_def)
  have e: "enqueued (snd (call Some id
                    (test_gateway usage_10_20 (Some (active_pipeline (\<lambda>m. Inl ''boom''))))
                    ?req None 5)) = [''openai'']"
    by (simp add: gateway_defs sample_defs Let_def)
  have "call Some id ?gw ?req None 5 = (fst (call Some id ?gw ?req None 5), snd (call Some id ?gw ?req None 5))"
    by simp
  then show ?thesis using a ne p r b c d e by simp
qed

text \<open>
  Claim C8, as stated for every router call, fails: the deterministic bypass comes before
  the lookup of the model, so a call with an unknown model id whose task type has an active
  substitute succeeds.
\<close>

theorem provider_path_failures_counterexample:
  "models (test_gateway usage_10_20 (Some (active_pipeline Inr))) ''non-existent'' = None \<and>
   fst (call Some id (test_gateway usage_10_20 (Some (active_pipeline Inr)))
          (test_request ''non-existent'' None (Some ''log_summarizer'')) None 5)
     = CallSuccess \<lparr>content = ''hi'', toolCalls = None\<rparr>
          \<lparr>meta_modelId = ''deterministic'', meta_provider = Some ''internal'', latencyMs = 5,
           meta_usage = \<lparr>usage_stats = Some \<lparr>promptTokens = 0, completionTokens = 0,
                                              totalTokens = 0\<rparr>,
                         usage_cost = 0\<rparr>\<rparr>"
  by (simp add: gateway_defs sample_defs Let_def)

text \<open>
  Claim C8, amended: for every router call that is not answered by a deterministic
  substitute (no task type, no pipeline, no active function for it, or the substitute
  threw), in this order: a model id that is not configured and is not the name of a member
  of \<^verbatim>\<open>Object.prototype\<close> gives "Unknown model"; a configured model without the \<open>tools\<close>
  capability, asked with tools, gives "Model does not support tools"; a configured model
  that passes the capability guard and whose provider has no queue (the provider's name
  not being the name of a member of \<^verbatim>\<open>Object.prototype\<close>) gives "No queue for provider:
  ..."; in all three cases no provider queue is entered.
\<close>

theorem provider_path_failures:
  fixes gw :: "('m, 't, 'c, 'o) gateway"
  shows
  "(\<forall>out. deterministic_bypass gw req \<noteq> BypassReturned out) \<longrightarrow>
     (models gw (modelId req) = None \<and> modelId req \<notin> set Object_prototype_members \<longrightarrow>
        fst (call asString stringify gw req jobId latency) = CallFailure ''Unknown model'' \<and>
        enqueued (snd (call asString stringify gw req jobId latency)) = []) \<and>
     (\<forall>conf. models gw (modelId req) = Some conf \<and> tools req \<noteq> None \<and>
             ''tools'' \<notin> set (capabilities conf) \<longrightarrow>
        fst (call asString stringify gw req jobId latency)
          = CallFailure ''Model does not support tools'' \<and>
        enqueued (snd (call asString stringify gw req jobId latency)) = []) \<and>
     (\<forall>conf. models gw (modelId req) = Some conf \<and>
             (tools req = None \<or> ''tools'' \<in> set (capabilities conf)) \<and>
             providerQueues gw (provider conf) = None \<and>
             provider conf \<notin> set Object_prototype_members \<longrightarrow>
        fst (call asString stringify gw req jobId latency)
          = CallFailure (''No queue for provider: '' @ provider conf) \<and>
        enqueued (snd (call asString stringify gw req jobId latency)) = [])"
proof (intro impI)
  assume nb: "\<forall>out. deterministic_bypass gw req \<noteq> BypassReturned out"
  have c: "fst (call asString stringify gw req jobId latency)
             = fst (provider_call gw req jobId latency) \<and>
           enqueued (snd (call asString stringify gw req jobId latency))
             = enqueued (snd (provider_call gw req jobId latency))"
    using nb by (cases "deterministic_bypass gw req")
                (auto simp: call_def enqueued_def split: prod.splits)
  have u: "provider_call gw req jobId latency = (CallFailure ''Unknown model'', [])"
    if "models gw (modelId req) = None" "modelId req \<notin> set Object_prototype_members"
    using that by (simp add: provider_call_def validateCapabilities_def property_of_def)
  have t: "provider_call gw req jobId latency
           = (CallFailure ''Model does not support tools'', [])"
    if "models gw (modelId req) = Some conf" "tools req \<noteq> None"
       "''tools'' \<notin> set (capabilities conf)" for conf
    using that
    by (simp add: provider_call_def validateCapabilities_def property_of_def
        CAPABILITY_TOOLS_def)
  have q: "provider_call gw req jobId latency
           = (CallFailure (''No queue for provider: '' @ provider conf),
              [Logged (Log Error (''No queue for provider: '' @ provider conf))])"
    if "models gw (modelId req) = Some conf"
       "tools req = None \<or> ''tools'' \<in> set (capabilities conf)"
       "providerQueues gw (provider conf) = None"
       "provider conf \<notin> set Object_prototype_members" for conf
    using that
    by (auto simp: provider_call_def validateCapabilities_def property_of_def
        CAPABILITY_TOOLS_def conf_provider_def shown_def Let_def)
  show "(models gw (modelId req) = None \<and> modelId req \<notin> set Object_prototype_members \<longrightarrow>
        fst (call asString stringify gw req jobId latency) = CallFailure ''Unknown model'' \<and>
        enqueued (snd (call asString stringify gw req jobId latency)) = []) \<and>
     (\<forall>conf. models gw (modelId req) = Some conf \<and> tools req \<noteq> None \<and>
             ''tools'' \<notin> set (capabilities conf) \<longrightarrow>
        fst (call asString stringify gw req jobId latency)
          = CallFailure ''Model does not support tools'' \<and>
        enqueued (snd (call asString stringify gw req jobId latency)) = []) \<and>
     (\<forall>conf. models gw (modelId req) = Some conf \<and>
             (tools req = None \<or> ''tools'' \<in> set (capabilities conf)) \<and>
             providerQueues gw (provider conf) = None \<and>
             provider conf \<notin> set Object_prototype_members \<longrightarrow>
        fst (call asString stringify gw req jobId latency)
          = CallFailure (''No queue for provider: '' @ provider conf) \<and>
        enqueued (snd (call asString stringify gw req jobId latency)) = [])"
    unfolding c [THEN conjunct1] c [THEN conjunct2]
    using u t q by (auto simp: enqueued_def)
qed

text \<open>
  The amended C8 on the three failing calls of the gateway's tests.
\<close>

theorem provider_path_failures_witness:
  "deterministic_bypass (test_gateway usage_10_20 None) (test_request ''non-existent'' None None)
     = NoBypass \<and>
   models (test_gateway usage_10_20 None) ''non-existent'' = None \<and>
   ''non-existent'' \<notin> set Object_prototype_members \<and>
   ''anthropic'' \<notin> set Object_prototype_members \<and>
   call Some id (test_gateway usage_10_20 None) (test_request ''non-existent'' None None) None 5
     = (CallFailure ''Unknown model'', []) \<and>
   call Some id (test_gateway usage_10_20 None)
        (test_request ''basic-model'' (Some [''test'']) None) None 5
     = (CallFailure ''Model does not support tools'', []) \<and>
   call Some id (test_gateway usage_10_20 None)
        (test_request ''claude-3'' (Some [''test'']) None) None 5
     = (CallFailure ''No queue for provider: anthropic'',
        [Logged (Log Error ''No queue for provider: anthropic'')])"
proof -
  let ?gw = "test_gateway usage_10_20 None"
  have nb: "\<forall>out. deterministic_bypass ?gw req \<noteq> BypassReturned out" for req
    by (simp add: deterministic_bypass_def test_gateway_def split: option.splits)
  note t = provider_path_failures [of ?gw _ Some id None 5, THEN mp, OF nb]
  have n1: "''non-existent'' \<notin> set Object_prototype_members"
    and n2: "''anthropic'' \<notin> set Object_prototype_members"
    by (simp_all add: Object_prototype_members_def)
  have a: "fst (call Some id ?gw (test_request ''non-existent'' None None) None 5)
           = CallFailure ''Unknown model''"
    using t [of "test_request ''non-existent'' None None", THEN conjunct1] n1
    by (simp add: test_gateway_def test_models_def test_request_def)
  have b: "fst (call Some id ?gw (test_request ''basic-model'' (Some [''test'']) None) None 5)
           = CallFailure ''Model does not support tools''"
    using t [of "test_request ''basic-model'' (Some [''test'']) None", THEN conjunct2,
             THEN conjunct1, rule_format,
             of "\<lparr>model_id = ''basic-model'', provider = ''local'', capabilities = [],
                  model_cost = Some \<lparr>input1k = 0, output1k = 0\<rparr>\<rparr>"]
    by (simp add: test_gateway_def test_models_def test_request_def)
  have c: "fst (call Some id ?gw (test_request ''claude-3'' (Some [''test'']) None) None 5)
           = CallFailure ''No queue for provider: anthropic''"
    using t [of "test_request ''claude-3'' (Some [''test'']) None", THEN conjunct2,
             THEN conjunct2, rule_format,
             of "\<lparr>model_id = ''claude-3'', provider = ''anthropic'', capabilities = [''tools''],
                  model_cost = Some \<lparr>input1k = round_double (15 / 1000),
                                       output1k = round_double (75 / 1000)\<rparr>\<rparr>"] n2
    by (simp add: test_gateway_def test_models_def test_request_def)
  have d: "snd (call Some id ?gw (test_request ''non-existent'' None None) None 5) = []"
       "snd (call Some id ?gw (test_request ''basic-model'' (Some [''test'']) None) None 5) = []"
       "snd (call Some id ?gw (test_request ''claude-3'' (Some [''test'']) None) None 5)
          = [Logged (Log Error ''No queue for provider: anthropic'')]"
    by (simp_all add: gateway_defs sample_defs Let_def)
  have e: "deterministic_bypass ?gw (test_request ''non-existent'' None None) = NoBypass"
    by (simp add: deterministic_bypass_def test_request_def)
  have m: "models ?gw ''non-existent'' = None"
    by (simp add: test_gateway_def test_models_def)
  show ?thesis using a b c d e m n1 n2 by (simp add: prod_eq_iff)
qed

text \<open>
  What the amended C8 leaves out: a model id that is not configured but names a member of
  \<^verbatim>\<open>Object.prototype\<close> is found by \<^verbatim>\<open>config.models[modelId]\<close>. Without tools the call
  goes on to the queue lookup with an undefined provider; with tools the capability check
  throws, outside every \<^verbatim>\<open>try\<close>, and the call is rejected.
\<close>

theorem inherited_member_taken_for_model:
  "models (test_gateway usage_10_20 None) ''constructor'' = None \<and>
   call Some id (test_gateway usage_10_20 None) (test_request ''constructor'' None None) None 5
     = (CallFailure ''No queue for provider: undefined'',
        [Logged (Log Error ''No queue for provider: undefined'')]) \<and>
   call Some id (test_gateway usage_10_20 None)
        (test_request ''constructor'' (Some [''test'']) None) None 5
     = (CallRejected (TypeError_reading ''includes''), [])"
  by (simp add: gateway_defs sample_defs Let_def)

text \<open>
  Evaluating the binary64 operations on numerals: the exponent search one step at a time,
  and the floor of a quotient of numerals.
\<close>

lemma floor_rat_numeral_div:
  "\<lfloor>(numeral a :: rat) / numeral b\<rfloor> = numeral a div numeral b"
  using floor_divide_of_int_eq [of "numeral a" "numeral b", where ?'a = rat] by simp

lemma log2_down_step: "0 < x \<Longrightarrow> x < 1 \<Longrightarrow> log2_down x = log2_down (2 * x) - 1"
  by (subst log2_down.simps) simp

lemma log2_down_stop: "1 \<le> x \<Longrightarrow> log2_down x = 0"
  by (subst log2_down.simps) simp

lemma log2_up_step: "2 \<le> x \<Longrightarrow> log2_up x = log2_up (x / 2) + 1"
  by (subst log2_up.simps) simp

lemma log2_up_stop: "x < 2 \<Longrightarrow> log2_up x = 0"
  by (subst log2_up.simps) simp

lemmas cost_eval =
  round_double_def floor_log2_def log2_down_step log2_down_stop log2_up_step log2_up_stop
  pow2_def round_half_even_def Let_def floor_rat_numeral_div
  js_div_def js_mul_def js_add_def double_cost_def toFixed_Number_def
  toFixed_decimal_def spec_cost_def gpt4_cost_def small_cost_def usage_10_20_def usage_7_0_def

text \<open>
  \<^verbatim>\<open>toFixed\<close> prints a decimal within half a unit of the last digit of its argument.
\<close>

lemma toFixed_decimal_close: "\<bar>toFixed_decimal d a - a\<bar> \<le> 1 / (2 * 10 ^ d)"
proof -
  define n where "n = \<lfloor>a * 10 ^ d + 1 / 2\<rfloor>"
  have p: "(0::rat) < 10 ^ d" by simp
  have lo: "of_int n \<le> a * 10 ^ d + 1 / 2" unfolding n_def by linarith
  have hi: "a * 10 ^ d + 1 / 2 < of_int n + 1" unfolding n_def by linarith
  have "\<bar>of_int n - a * 10 ^ d\<bar> \<le> 1 / 2" using lo hi by linarith
  then have "\<bar>of_int n / 10 ^ d - a\<bar> * 10 ^ d \<le> 1 / 2"
    using p by (simp add: abs_mult [symmetric] field_simps)
  then have "\<bar>of_int n / 10 ^ d - a\<bar> \<le> 1 / (2 * 10 ^ d)"
    using p by (simp add: field_simps)
  then show ?thesis by (simp add: toFixed_decimal_def n_def)
qed

lemma toFixed_Number_nonneg:
  "0 \<le> x \<Longrightarrow> x < 10 ^ 21 \<Longrightarrow> toFixed_Number d x = round_double (toFixed_decimal d x)"
  by (simp add: toFixed_Number_def Let_def)

lemma gpt4_example_cost:
  "toFixed_Number 6 (double_cost gpt4_cost usage_10_20) = round_double (15 / 10000)"
  by (simp add: cost_eval)

lemma double_cost_tokens:
  "promptTokens u = promptTokens v \<Longrightarrow> completionTokens u = completionTokens v \<Longrightarrow>
   double_cost c u = double_cost c v"
  by (simp add: double_cost_def)

text \<open>
  Claim C9, as stated for every successful provider call, fails: the code rounds the sum to
  six decimals. Seven prompt tokens at a rate of 0.00015 per thousand cost 0.00000105 by
  the formula, in exact arithmetic and in doubles alike (both lie above 0.00000104); the
  call reports the double nearest to 0.000001.
\<close>

theorem provider_call_cost_counterexample:
  "fst (call Some id (test_gateway usage_7_0 None) (test_request ''small-model'' None None) None 5)
     = CallSuccess \<lparr>content = ''Hello world'', toolCalls = None\<rparr>
          \<lparr>meta_modelId = ''small-model'', meta_provider = Some ''openai'', latencyMs = 5,
           meta_usage = \<lparr>usage_stats = Some usage_7_0,
                         usage_cost = round_double (1 / 1000000)\<rparr>\<rparr> \<and>
   round_double (1 / 1000000) < 104 / 100000000 \<and>
   104 / 100000000 < spec_cost small_cost usage_7_0 \<and>
   104 / 100000000 < double_cost small_cost usage_7_0"
proof -
  have k: "toFixed_Number 6 (double_cost small_cost usage_7_0) = round_double (1 / 1000000)"
    by (simp add: cost_eval)
  have a: "round_double (1 / 1000000) < 104 / 100000000" by (simp add: cost_eval)
  have b: "104 / 100000000 < spec_cost small_cost usage_7_0" by (simp add: cost_eval)
  have c: "104 / 100000000 < double_cost small_cost usage_7_0" by (simp add: cost_eval)
  have "fst (call Some id (test_gateway usage_7_0 None)
               (test_request ''small-model'' None None) None 5)
     = CallSuccess \<lparr>content = ''Hello world'', toolCalls = None\<rparr>
          \<lparr>meta_modelId = ''small-model'', meta_provider = Some ''openai'', latencyMs = 5,
           meta_usage = \<lparr>usage_stats = Some usage_7_0,
                         usage_cost = toFixed_Number 6 (double_cost small_cost usage_7_0)\<rparr>\<rparr>"
    by (simp add: gateway_defs sample_defs Let_def)
  then show ?thesis using a b c by (simp add: k)
qed

text \<open>
  Claim C9, amended: for every successful provider call (a call that succeeds and was not
  answered by a substitute) on a configured model, the reported cost is 0 when the model
  has no cost configuration or the response no usage; otherwise, for rates and token counts
  that are finite doubles and a computation that does not overflow, it is the sum
  \<open>(promptTokens/1000) \<times> input1k + (completionTokens/1000) \<times> output1k\<close> of the reported usage,
  computed in double arithmetic and then passed through \<^verbatim>\<open>Number(x.toFixed(6))\<close>: for a sum
  from 0 up to \<open>10^21\<close> it is the double nearest to the six-decimal rendering of that sum,
  a decimal within half a millionth of it. For \<open>input1k = 0.03\<close>, \<open>output1k = 0.06\<close> and 10
  prompt and 20 completion tokens it is \<open>0.0015\<close>.
\<close>

theorem provider_call_cost:
  fixes gw :: "('m, 't, 'c, 'o) gateway"
  shows
  "(\<forall>out. deterministic_bypass gw req \<noteq> BypassReturned out) \<and>
   models gw (modelId req) = Some conf \<and>
   fst (call asString stringify gw req jobId latency) = CallSuccess d m \<longrightarrow>
     (model_cost conf = None \<or> usage_stats (meta_usage m) = None \<longrightarrow>
        usage_cost (meta_usage m) = 0) \<and>
     (\<forall>c u. model_cost conf = Some c \<and> usage_stats (meta_usage m) = Some u \<and>
            cost_in_doubles c u \<longrightarrow>
        usage_cost (meta_usage m) = toFixed_Number 6 (double_cost c u) \<and>
        (0 \<le> double_cost c u \<and> double_cost c u < 10 ^ 21 \<longrightarrow>
           usage_cost (meta_usage m) = round_double (toFixed_decimal 6 (double_cost c u)) \<and>
           \<bar>toFixed_decimal 6 (double_cost c u) - double_cost c u\<bar> \<le> 1 / (2 * 10 ^ 6))) \<and>
     (\<forall>u. model_cost conf = Some \<lparr>input1k = round_double (3 / 100),
                                    output1k = round_double (6 / 100)\<rparr> \<and>
          usage_stats (meta_usage m) = Some u \<and> promptTokens u = 10 \<and>
          completionTokens u = 20 \<longrightarrow>
        usage_cost (meta_usage m) = round_double (15 / 10000))"
proof (intro impI)
  assume h: "(\<forall>out. deterministic_bypass gw req \<noteq> BypassReturned out) \<and>
   models gw (modelId req) = Some conf \<and>
   fst (call asString stringify gw req jobId latency) = CallSuccess d m"
  have c: "fst (call asString stringify gw req jobId latency)
           = fst (provider_call gw req jobId latency)"
    using h by (cases "deterministic_bypass gw req") (auto simp: call_def split: prod.splits)
  have p: "fst (provider_call gw req jobId latency) = CallSuccess d m"
    using h c by simp
  have k: "usage_cost (meta_usage m)
           = calculateCost gw (modelId req) (usage_stats (meta_usage m))"
    using p
    by (auto simp: provider_call_def queue_call_def call_failed_def Let_def
        split: sum.splits result.splits property.splits option.splits if_splits)
  have r: "usage_cost (meta_usage m)
       = (case model_cost conf of
            None \<Rightarrow> 0
          | Some c \<Rightarrow> (case usage_stats (meta_usage m) of
                         None \<Rightarrow> 0
                       | Some u \<Rightarrow> toFixed_Number 6 (double_cost c u)))"
    unfolding k using h
    by (simp add: calculateCost_def property_of_def split: option.splits)
  have z: "usage_cost (meta_usage m) = 0"
    if "model_cost conf = None \<or> usage_stats (meta_usage m) = None"
    using that by (auto simp: r split: option.splits)
  have cl: "usage_cost (meta_usage m) = toFixed_Number 6 (double_cost c u) \<and>
        (0 \<le> double_cost c u \<and> double_cost c u < 10 ^ 21 \<longrightarrow>
           usage_cost (meta_usage m) = round_double (toFixed_decimal 6 (double_cost c u)) \<and>
           \<bar>toFixed_decimal 6 (double_cost c u) - double_cost c u\<bar> \<le> 1 / (2 * 10 ^ 6))"
    if "model_cost conf = Some c" "usage_stats (meta_usage m) = Some u" for c u
    using that toFixed_decimal_close [of 6 "double_cost c u"]
          toFixed_Number_nonneg [of "double_cost c u" 6]
    by (simp add: r)
  have e15: "usage_cost (meta_usage m) = round_double (15 / 10000)"
    if "model_cost conf = Some \<lparr>input1k = round_double (3 / 100),
                                  output1k = round_double (6 / 100)\<rparr>"
       "usage_stats (meta_usage m) = Some u" "promptTokens u = 10" "completionTokens u = 20"
    for u
  proof -
    have "double_cost gpt4_cost u = double_cost gpt4_cost usage_10_20"
      by (rule double_cost_tokens) (simp_all add: that usage_10_20_def)
    then show ?thesis
      using that(1,2) gpt4_example_cost by (simp add: r gpt4_cost_def)
  qed
  show "(model_cost conf = None \<or> usage_stats (meta_usage m) = None \<longrightarrow>
        usage_cost (meta_usage m) = 0) \<and>
     (\<forall>c u. model_cost conf = Some c \<and> usage_stats (meta_usage m) = Some u \<and>
            cost_in_doubles c u \<longrightarrow>
        usage_cost (meta_usage m) = toFixed_Number 6 (double_cost c u) \<and>
        (0 \<le> double_cost c u \<and> double_cost c u < 10 ^ 21 \<longrightarrow>
           usage_cost (meta_usage m) = round_double (toFixed_decimal 6 (double_cost c u)) \<and>
           \<bar>toFixed_decimal 6 (double_cost c u) - double_cost c u\<bar> \<le> 1 / (2 * 10 ^ 6))) \<and>
     (\<forall>u. model_cost conf = Some \<lparr>input1k = round_double (3 / 100),
                                    output1k = round_double (6 / 100)\<rparr> \<and>
          usage_stats (meta_usage m) = Some u \<and> promptTokens u = 10 \<and>
          completionTokens u = 20 \<longrightarrow>
        usage_cost (meta_usage m) = round_double (15 / 10000))"
    using z cl e15 by blast
qed

text \<open>
  The amended C9 on the successful call of the gateway's tests: \<open>gpt-4\<close>, 10 and 20
  tokens, cost \<open>0.0015\<close>.
\<close>

theorem provider_call_cost_witness:
  "deterministic_bypass (test_gateway usage_10_20 None) (test_request ''gpt-4'' None None)
     = NoBypass \<and>
   map_option model_cost (models (test_gateway usage_10_20 None) ''gpt-4'')
     = Some (Some gpt4_cost) \<and>
   cost_in_doubles gpt4_cost usage_10_20 \<and>
   0 \<le> double_cost gpt4_cost usage_10_20 \<and> double_cost gpt4_cost usage_10_20 < 10 ^ 21 \<and>
   fst (call Some id (test_gateway usage_10_20 None) (test_request ''gpt-4'' None None) None 5)
     = CallSuccess \<lparr>content = ''Hello world'', toolCalls = None\<rparr>
         \<lparr>meta_modelId = ''gpt-4'', meta_provider = Some ''openai'', latencyMs = 5,
          meta_usage = \<lparr>usage_stats = Some usage_10_20,
                        usage_cost = round_double (15 / 10000)\<rparr>\<rparr> \<and>
   round_double (15 / 10000) = round_double (toFixed_decimal 6 (double_cost gpt4_cost usage_10_20))"
proof -
  let ?gw = "test_gateway usage_10_20 None"
  let ?req = "test_request ''gpt-4'' None None"
  let ?conf = "\<lparr>model_id = ''gpt-4'', provider = ''openai'',
                 capabilities = [''tools'', ''json_mode''],
                 model_cost = Some gpt4_cost\<rparr>"
  let ?d = "\<lparr>content = ''Hello world'', toolCalls = None\<rparr> :: unit ResponseData"
  let ?m = "\<lparr>meta_modelId = ''gpt-4'', meta_provider = Some ''openai'', latencyMs = 5,
              meta_usage = \<lparr>usage_stats = Some usage_10_20,
                            usage_cost = calculateCost ?gw ''gpt-4'' (Some usage_10_20)\<rparr>\<rparr>"
  have nb: "\<forall>out. deterministic_bypass ?gw ?req \<noteq> BypassReturned out"
    by (simp add: deterministic_bypass_def test_gateway_def split: option.splits)
  have e: "deterministic_bypass ?gw ?req = NoBypass"
    by (simp add: deterministic_bypass_def test_request_def)
  have m: "models ?gw (modelId ?req) = Some ?conf"
    by (simp add: test_gateway_def test_models_def test_request_def)
  have s: "fst (call Some id ?gw ?req None 5) = CallSuccess ?d ?m"
    by (simp add: call_def deterministic_bypass_def provider_call_def queue_call_def
        validateCapabilities_def property_of_def conf_provider_def shown_def
        CAPABILITY_TOOLS_def test_gateway_def test_models_def test_request_def
        mock_queue_def Let_def)
  have f: "cost_in_doubles gpt4_cost usage_10_20"
    by (simp add: cost_in_doubles_def finite_double_def cost_eval)
  have n: "0 \<le> double_cost gpt4_cost usage_10_20"
    and b: "double_cost gpt4_cost usage_10_20 < 10 ^ 21"
    by (simp_all add: cost_eval)
  note t = provider_call_cost
             [of ?gw ?req ?conf Some id None 5 ?d ?m, rule_format,
              OF conjI [OF nb conjI [OF m s]]]
  have "model_cost ?conf = Some gpt4_cost \<and> usage_stats (meta_usage ?m) = Some usage_10_20 \<and>
        cost_in_doubles gpt4_cost usage_10_20"
    using f by simp
  note u = t [THEN conjunct2, THEN conjunct1, rule_format, OF this]
  have c1: "usage_cost (meta_usage ?m) = toFixed_Number 6 (double_cost gpt4_cost usage_10_20)"
    using u [THEN conjunct1] .
  have c2: "usage_cost (meta_usage ?m)
            = round_double (toFixed_decimal 6 (double_cost gpt4_cost usage_10_20))"
    using u [THEN conjunct2] n b by simp
  have c3: "usage_cost (meta_usage ?m) = round_double (15 / 10000)"
    using t [THEN conjunct2, THEN conjunct2, rule_format, of usage_10_20]
    by (simp add: usage_10_20_def gpt4_cost_def)
  have m': "map_option model_cost (models ?gw ''gpt-4'') = Some (Some gpt4_cost)"
    using m by (simp add: test_request_def)
  show ?thesis using e m' s c2 c3 f n b by simp
qed

end
